theory Spec2Isabelle
  imports Main
begin

section \<open>The sso gateway of httpproxy (sso/sso.go)\<close>

text \<open>
  A shallow embedding of the session handling of \<^verbatim>\<open>sso/sso.go\<close>: the cookie codec
  (\<^verbatim>\<open>encrypt\<close>, \<^verbatim>\<open>decrypt\<close>, \<^verbatim>\<open>stateFromRequest\<close>), the login handler, the request
  handler with its proxy and handshake branches, and \<^verbatim>\<open>domainFromHost\<close>. The routing
  of \<^verbatim>\<open>ServeHTTP\<close>, the CSRF middleware around it and the logout handler are not part of
  the model: each handler is modelled as the function the multiplexer calls.

  Go strings and byte slices are lists of 8-bit characters. A Go function that returns
  \<^verbatim>\<open>(value, error)\<close> returns a sum (\<open>Inl\<close> the error) or, where the code hands both
  components on, a pair with an optional error. A run-time panic and a process exit are
  outcomes of their own, since no \<^verbatim>\<open>err != nil\<close> test of the code sees them.
\<close>

subsection \<open>Data model\<close>

type_synonym bytes = string

record User =
  ID :: int
  Name :: string
  Login :: string
  Email :: string
  GravatarID :: string
  IsSyncing :: bool
  SyncedAt :: string
  CorrectScopes :: bool
  CreatedAt :: string

record APIMessage =
  MUser :: User

record State =
  User :: User
  Token :: string

text \<open>The fields of \<^verbatim>\<open>url.URL\<close> the code reads or writes.\<close>

record URL =
  Scheme :: string
  Host :: string
  Path :: string
  RawQuery :: string

subsection \<open>Errors, panics and their messages\<close>

text \<open>
  \<open>ErrNoCookie\<close> is \<^verbatim>\<open>http.ErrNoCookie\<close>, \<open>ErrorString\<close> a value of \<^verbatim>\<open>errors.New\<close>,
  \<open>KeySizeError\<close> the error of \<^verbatim>\<open>aes.NewCipher\<close>, \<open>CorruptInputError\<close> the error of the
  base64 decoder, \<open>ErrUnexpectedEOF\<close> and \<open>EOF\<close> the errors of \<^verbatim>\<open>io.ReadFull\<close>, and
  \<open>OtherError\<close> any other library error, carried with its message.
\<close>

datatype error =
    ErrNoCookie
  | ErrorString string
  | KeySizeError nat
  | CorruptInputError nat
  | ErrUnexpectedEOF
  | EOF
  | OtherError string

datatype 'a go =
    Return 'a
  | Panic string
  | Exit string

definition digit :: "nat \<Rightarrow> char" where
  "digit n = ''0123456789'' ! (n mod 10)"

function Itoa :: "nat \<Rightarrow> string" where
  "Itoa n = (if n < 10 then [digit n] else Itoa (n div 10) @ [digit n])"
  by pat_completeness auto
termination
  by (relation "measure id") auto

text \<open>The method \<^verbatim>\<open>Error()\<close> of an error value.\<close>

fun Error :: "error \<Rightarrow> string" where
  "Error ErrNoCookie = ''http: named cookie not present''"
| "Error (ErrorString s) = s"
| "Error (KeySizeError k) = ''crypto/aes: invalid key size '' @ Itoa k"
| "Error (CorruptInputError n) = ''illegal base64 data at input byte '' @ Itoa n"
| "Error ErrUnexpectedEOF = ''unexpected EOF''"
| "Error EOF = ''EOF''"
| "Error (OtherError s) = s"

subsection \<open>domainFromHost\<close>

text \<open>
  \<^verbatim>\<open>strings.Index(s, substr)\<close>: the index of the first occurrence of \<open>substr\<close> in
  \<open>s\<close>, or \<open>-1\<close>.
\<close>

fun strings_Index :: "string \<Rightarrow> string \<Rightarrow> int" where
  "strings_Index [] substr = (if substr = [] then 0 else - 1)"
| "strings_Index (c # s) substr =
     (if take (length substr) (c # s) = substr then 0
      else (let i = strings_Index s substr in if i < 0 then - 1 else i + 1))"

text \<open>
  \<^verbatim>\<open>
  func domainFromHost(host string) string {
      index := strings.Index(host, ":")
      if index > 0 { return host[:index] }
      return host
  }
  \<close>
  The slice \<^verbatim>\<open>host[:index]\<close> is in range, since \<open>index\<close> is a position of \<open>host\<close>.
\<close>

definition domainFromHost :: "string \<Rightarrow> string" where
  "domainFromHost host =
     (let index = strings_Index host '':''
      in if index > 0 then take (nat index) host else host)"

subsection \<open>Go slices\<close>

text \<open>
  A byte slice is the elements it shows (\<open>elems\<close>) followed by the rest of its backing
  array up to the capacity (\<open>slack\<close>). \<^verbatim>\<open>s[:n]\<close> panics when \<open>n\<close> exceeds the capacity,
  \<^verbatim>\<open>s[n:]\<close> (that is \<^verbatim>\<open>s[n:len(s)]\<close>) when \<open>n\<close> exceeds the length.
\<close>

record slice =
  elems :: bytes
  slack :: bytes

definition len :: "slice \<Rightarrow> nat" where
  "len s = length (elems s)"

definition cap :: "slice \<Rightarrow> nat" where
  "cap s = length (elems s) + length (slack s)"

definition slice_to :: "slice \<Rightarrow> nat \<Rightarrow> slice go" where
  "slice_to s n =
     (if n > cap s then Panic ''runtime error: slice bounds out of range''
      else Return \<lparr>elems = take n (elems s @ slack s), slack = drop n (elems s @ slack s)\<rparr>)"

definition slice_from :: "slice \<Rightarrow> nat \<Rightarrow> slice go" where
  "slice_from s n =
     (if n > len s then Panic ''runtime error: slice bounds out of range''
      else Return \<lparr>elems = drop n (elems s), slack = slack s\<rparr>)"

subsection \<open>Requests, cookies and the response writer\<close>

record Cookie =
  Name :: string
  Value :: string
  Path :: string
  Domain :: string
  Expires :: int

text \<open>
  A time is its number of nanoseconds since the Unix epoch, a \<^verbatim>\<open>time.Duration\<close> a number
  of nanoseconds.
\<close>

definition time_Hour :: int where
  "time_Hour = 3600000000000"

text \<open>\<^verbatim>\<open>time.Date(1970, time.January, 1, 1, 0, 0, 0, time.UTC)\<close>: one hour after the epoch.\<close>

definition time_Date_1970_Jan_1_1h :: int where
  "time_Date_1970_Jan_1_1h = time_Hour"

text \<open>
  What \<^verbatim>\<open>http.SetCookie\<close> writes for a cookie, after \<^verbatim>\<open>Cookie.String\<close> of net/http: nothing
  when the name is no token; else the name, the value without its invalid bytes (quoted
  when it holds a space or a comma), the path without its invalid bytes when the path is
  not empty, the domain only when it is a valid cookie domain (a domain name or an IPv4
  address; any other domain is dropped and the cookie becomes host-only; a leading dot is
  not sent), and the expiry in whole seconds when its year is 1601 or later. The other
  fields of the cookie are zero in this code and give no attribute.
\<close>

definition isTokenChar :: "char \<Rightarrow> bool" where
  \<open>isTokenChar c =
     (c \<in> set ''!#$%&*+-.^_`|~0123456789ABCDEFGHIJKLMNOPQRSTUVWXYZabcdefghijklmnopqrstuvwxyz''
      \<or> c = CHR 0x27)\<close>

definition isCookieNameValid :: "string \<Rightarrow> bool" where
  "isCookieNameValid raw = (raw \<noteq> [] \<and> list_all isTokenChar raw)"

definition validCookieValueByte :: "char \<Rightarrow> bool" where
  "validCookieValueByte b =
     (32 \<le> (of_char b :: nat) \<and> (of_char b :: nat) < 127
      \<and> b \<noteq> CHR 0x22 \<and> b \<noteq> CHR '';'' \<and> b \<noteq> CHR 0x5C)"

definition sanitizeCookieValue :: "string \<Rightarrow> string" where
  "sanitizeCookieValue v =
     (let v = filter validCookieValueByte v
      in if v = [] then v
         else if CHR '' '' \<in> set v \<or> CHR '','' \<in> set v then [CHR 0x22] @ v @ [CHR 0x22]
         else v)"

definition validCookiePathByte :: "char \<Rightarrow> bool" where
  "validCookiePathByte b =
     (32 \<le> (of_char b :: nat) \<and> (of_char b :: nat) < 127 \<and> b \<noteq> CHR '';'')"

definition sanitizeCookiePath :: "string \<Rightarrow> string" where
  "sanitizeCookiePath v = filter validCookiePathByte v"

definition isLetter :: "char \<Rightarrow> bool" where
  "isLetter c = (c \<in> set ''abcdefghijklmnopqrstuvwxyzABCDEFGHIJKLMNOPQRSTUVWXYZ'')"

definition isDigit :: "char \<Rightarrow> bool" where
  "isDigit c = (c \<in> set ''0123456789'')"

text \<open>
  The loop of \<^verbatim>\<open>isCookieDomainName\<close>: \<open>lastb\<close> is the byte before (\<^verbatim>\<open>last\<close>), \<open>ok\<close> says that a
  letter has been seen, \<open>partlen\<close> is the length of the current label.
\<close>

fun domainNameLoop :: "char \<Rightarrow> bool \<Rightarrow> nat \<Rightarrow> string \<Rightarrow> bool" where
  "domainNameLoop lastb ok partlen [] = (\<not> (lastb = CHR ''-'' \<or> partlen > 63) \<and> ok)"
| "domainNameLoop lastb ok partlen (c # s) =
     (if isLetter c then domainNameLoop c True (partlen + 1) s
      else if isDigit c then domainNameLoop c ok (partlen + 1) s
      else if c = CHR ''-''
        then (if lastb = CHR ''.'' then False else domainNameLoop c ok (partlen + 1) s)
      else if c = CHR ''.''
        then (if lastb = CHR ''.'' \<or> lastb = CHR ''-'' then False
              else if partlen > 63 \<or> partlen = 0 then False
              else domainNameLoop c ok 0 s)
      else False)"

definition isCookieDomainName :: "string \<Rightarrow> bool" where
  "isCookieDomainName s =
     (if length s = 0 then False
      else if length s > 255 then False
      else domainNameLoop (CHR ''.'') False 0 (if hd s = CHR ''.'' then tl s else s))"

text \<open>
  \<^verbatim>\<open>net.ParseIP\<close> on a string without a colon, where only the dotted decimal form of IPv4
  can parse: four fields, each with at least one digit, no leading zero and a value of at
  most 255. The arguments are the value and the number of digits of the current field, the
  number of fields closed, and the byte before (none at the start).
\<close>

fun parseIPv4Loop :: "nat \<Rightarrow> nat \<Rightarrow> nat \<Rightarrow> char option \<Rightarrow> string \<Rightarrow> bool" where
  "parseIPv4Loop val digLen pos prev [] = (\<not> pos < 3)"
| "parseIPv4Loop val digLen pos prev (c # s) =
     (if isDigit c
      then (if digLen = 1 \<and> val = 0 then False
            else (let val = val * 10 + (of_char c - 48)
                  in if val > 255 then False
                     else parseIPv4Loop val (digLen + 1) pos (Some c) s))
      else if c = CHR ''.''
      then (if prev = None \<or> s = [] \<or> prev = Some (CHR ''.'') then False
            else if pos = 3 then False
            else parseIPv4Loop 0 0 (pos + 1) (Some c) s)
      else False)"

definition validCookieDomain :: "string \<Rightarrow> bool" where
  "validCookieDomain v =
     (if isCookieDomainName v then True
      else if parseIPv4Loop 0 0 0 None v \<and> CHR '':'' \<notin> set v then True
      else False)"

text \<open>The year of a time is 1601 or later: the time is not before 1601-01-01T00:00:00Z.\<close>

definition validCookieExpires :: "int \<Rightarrow> bool" where
  "validCookieExpires t = (- 11644473600 \<le> t div 1000000000)"

text \<open>The attributes of one Set-Cookie header line; the expiry is in seconds since the epoch.\<close>

record SetCookieLine =
  LName :: string
  LValue :: string
  LPath :: "string option"
  LDomain :: "string option"
  LExpires :: "int option"

definition domain_attribute :: "string \<Rightarrow> string option" where
  "domain_attribute d =
     (if length d > 0 \<and> validCookieDomain d
      then Some (if hd d = CHR ''.'' then tl d else d)
      else None)"

definition Cookie_String :: "Cookie \<Rightarrow> SetCookieLine option" where
  "Cookie_String c =
     (if \<not> isCookieNameValid (Cookie.Name c) then None
      else Some
        \<lparr>LName = Cookie.Name c,
         LValue = sanitizeCookieValue (Value c),
         LPath = (if length (Cookie.Path c) > 0 then Some (sanitizeCookiePath (Cookie.Path c))
                  else None),
         LDomain = domain_attribute (Domain c),
         LExpires = (if validCookieExpires (Expires c) then Some (Expires c div 1000000000)
                     else None)\<rparr>)"

text \<open>
  An incoming request: its method, URL, header (\<^verbatim>\<open>map[string][]string\<close>, a missing key
  is the empty list), the cookies of its Cookie header in order, and its parsed form.
\<close>

record Request =
  Method :: string
  URL :: URL
  Header :: "string \<Rightarrow> string list"
  Cookies :: "(string \<times> string) list"
  Form :: "string \<Rightarrow> string list"

text \<open>\<^verbatim>\<open>req.Cookie(name)\<close>: the first cookie of that name, or \<^verbatim>\<open>ErrNoCookie\<close>.\<close>

definition Request_Cookie :: "Request \<Rightarrow> string \<Rightarrow> error + string" where
  "Request_Cookie req name =
     (case map_of (Cookies req) name of None \<Rightarrow> Inl ErrNoCookie | Some v \<Rightarrow> Inr v)"

text \<open>\<^verbatim>\<open>req.FormValue(key)\<close>: the first value of the key, or the empty string.\<close>

definition FormValue :: "Request \<Rightarrow> string \<Rightarrow> string" where
  "FormValue req key = (case Form req key of [] \<Rightarrow> [] | v # _ \<Rightarrow> v)"

text \<open>\<^verbatim>\<open>h.Add(key, value)\<close> on a header or on \<^verbatim>\<open>url.Values\<close>: append to the key's list.\<close>

definition Header_Add :: "(string \<Rightarrow> string list) \<Rightarrow> string \<Rightarrow> string \<Rightarrow> (string \<Rightarrow> string list)" where
  "Header_Add h key v = h(key := h key @ [v])"


definition Header_Set :: "(string \<Rightarrow> string list) \<Rightarrow> string \<Rightarrow> string \<Rightarrow> (string \<Rightarrow> string list)" where
  "Header_Set h key v = h(key := [v])"

datatype Template = Template string

record LoginParams =
  Public :: string
  Endpoint :: string
  Origin :: string
  CSRF :: string

text \<open>
  What a handler writes to the body: literal text, the login template executed on its
  parameters, or the upstream's answer to the request handed to the forwarder.
\<close>

datatype chunk =
    Text string
  | LoginPage Template LoginParams
  | Upstream Request

text \<open>
  The response writer: the header, its Set-Cookie lines in order (kept apart from the
  other header lines, attribute by attribute), the status code once written, and the body.
\<close>

record ResponseWriter =
  WHeader :: "string \<Rightarrow> string list"
  SetCookies :: "SetCookieLine list"
  Code :: "nat option"
  Body :: "chunk list"

definition WriteHeader :: "ResponseWriter \<Rightarrow> nat \<Rightarrow> ResponseWriter" where
  "WriteHeader w code = (case Code w of None \<Rightarrow> w\<lparr>Code := Some code\<rparr> | Some _ \<Rightarrow> w)"

text \<open>\<^verbatim>\<open>w.Write\<close>: writes status 200 first when no status has been written.\<close>

definition Write :: "ResponseWriter \<Rightarrow> chunk \<Rightarrow> ResponseWriter" where
  "Write w c = (WriteHeader w 200)\<lparr>Body := Body (WriteHeader w 200) @ [c]\<rparr>"

text \<open>
  \<^verbatim>\<open>http.SetCookie(w, cookie)\<close>: adds the line of the cookie, when there is one, to the
  Set-Cookie lines.
\<close>

definition http_SetCookie :: "ResponseWriter \<Rightarrow> Cookie \<Rightarrow> ResponseWriter" where
  "http_SetCookie w c =
     (case Cookie_String c of
        None \<Rightarrow> w
      | Some line \<Rightarrow> w\<lparr>SetCookies := SetCookies w @ [line]\<rparr>)"

text \<open>
  \<^verbatim>\<open>http.Error(w, msg, code)\<close>: a plain-text content type, the status, the message and
  a newline.
\<close>

definition http_Error :: "ResponseWriter \<Rightarrow> string \<Rightarrow> nat \<Rightarrow> ResponseWriter" where
  "http_Error w msg code =
     Write (WriteHeader
       (w\<lparr>WHeader := Header_Set (Header_Set (WHeader w)
             ''Content-Type'' ''text/plain; charset=utf-8'')
             ''X-Content-Type-Options'' ''nosniff''\<rparr>) code)
       (Text (msg @ [CHR 0x0A]))"

definition StatusText :: "nat \<Rightarrow> string" where
  "StatusText code = (if code = 302 then ''Found'' else [])"

text \<open>
  \<^verbatim>\<open>http.Redirect(w, req, url, code)\<close> for a target that needs no cleaning and no
  escaping (the code only redirects to \<^verbatim>\<open>/\<close>): the Location header, a content type for
  GET and HEAD, the status, and a short HTML body for GET.
\<close>

definition http_Redirect :: "ResponseWriter \<Rightarrow> Request \<Rightarrow> string \<Rightarrow> nat \<Rightarrow> ResponseWriter" where
  \<open>http_Redirect w req url code =
     (let hadCT = (WHeader w ''Content-Type'' \<noteq> []);
          h = Header_Set (WHeader w) ''Location'' url;
          h = (if \<not> hadCT \<and> (Method req = ''GET'' \<or> Method req = ''HEAD'')
               then Header_Set h ''Content-Type'' ''text/html; charset=utf-8'' else h);
          w = WriteHeader (w\<lparr>WHeader := h\<rparr>) code
      in if \<not> hadCT \<and> Method req = ''GET''
         then Write w (Text (''<a href="'' @ url @ ''">'' @ StatusText code @ ''</a>.''
                 @ [CHR 0x0A, CHR 0x0A]))
         else w)\<close>

subsection \<open>Library functions\<close>

text \<open>
  \<^verbatim>\<open>aes.NewCipher\<close> of the Go standard library accepts a key of 16, 24 or 32 bytes
  (AES-128, AES-192, AES-256) and returns \<^verbatim>\<open>KeySizeError(len(key))\<close> for any other
  length. \<^verbatim>\<open>cipher.NewGCM\<close> fails only for a block size other than 16, which is the block
  size of AES.
\<close>

datatype Block = AESBlock bytes

datatype AEAD = GCM bytes

definition aes_NewCipher :: "bytes \<Rightarrow> error + Block" where
  "aes_NewCipher key =
     (let k = length key
      in if k = 16 \<or> k = 24 \<or> k = 32 then Inr (AESBlock key) else Inl (KeySizeError k))"

fun cipher_NewGCM :: "Block \<Rightarrow> error + AEAD" where
  "cipher_NewGCM (AESBlock key) = Inr (GCM key)"

text \<open>
  \<^verbatim>\<open>io.ReadFull(rand.Reader, buf)\<close> with \<open>n = len(buf)\<close>, on a source that still delivers
  the bytes \<open>src\<close>: the first \<open>n\<close> bytes and the rest of the source, or \<^verbatim>\<open>EOF\<close> when
  nothing was read and \<^verbatim>\<open>ErrUnexpectedEOF\<close> when fewer than \<open>n\<close> bytes were.
\<close>

definition io_ReadFull :: "bytes \<Rightarrow> nat \<Rightarrow> (error + bytes) \<times> bytes" where
  "io_ReadFull src n =
     (if n \<le> length src then (Inr (take n src), drop n src)
      else if src = [] then (Inl EOF, [])
      else (Inl ErrUnexpectedEOF, []))"

record ClientRequest =
  CMethod :: string
  CURL :: string
  CHeader :: "string \<Rightarrow> string list"

record ClientResponse =
  StatusCode :: nat
  RespBody :: bytes

text \<open>
  The other library functions the code calls are parameters of the model: the base64
  codec (the decoder returns the slice \<^verbatim>\<open>dbuf[:n]\<close> of its buffer), the sealing and opening
  of AES-GCM under a key and a 12-byte nonce with no additional data, the JSON encoder and
  the decoders (into \<^verbatim>\<open>*State\<close>, where JSON \<^verbatim>\<open>null\<close> gives a nil pointer, and into
  \<^verbatim>\<open>APIMessage\<close>), the query and string functions of \<^verbatim>\<open>net/url\<close>, the HTTP client, the
  template parser and the token of the CSRF middleware.
\<close>

record Lib =
  base64_DecodeString :: "string \<Rightarrow> error + slice"
  base64_EncodeToString :: "bytes \<Rightarrow> string"
  gcm_Seal :: "bytes \<Rightarrow> bytes \<Rightarrow> bytes \<Rightarrow> bytes"
  gcm_Open :: "bytes \<Rightarrow> bytes \<Rightarrow> bytes \<Rightarrow> bytes option"
  json_Marshal :: "State \<Rightarrow> error + bytes"
  json_DecodeState :: "bytes \<Rightarrow> error + State option"
  json_DecodeAPIMessage :: "bytes \<Rightarrow> error + APIMessage"
  url_Query :: "URL \<Rightarrow> (string \<Rightarrow> string list)"
  Values_Encode :: "(string \<Rightarrow> string list) \<Rightarrow> string"
  URL_String :: "URL \<Rightarrow> string"
  http_NewRequest :: "string \<Rightarrow> string \<Rightarrow> error + ClientRequest"
  client_Do :: "ClientRequest \<Rightarrow> error + ClientResponse"
  template_ParseFiles :: "string \<Rightarrow> error + Template"
  csrf_Token :: "Request \<Rightarrow> string"

text \<open>\<^verbatim>\<open>errOpen\<close> of \<^verbatim>\<open>crypto/cipher\<close>, the only error of \<^verbatim>\<open>Open\<close>.\<close>

definition errOpen :: error where
  "errOpen = ErrorString ''cipher: message authentication failed''"

subsection \<open>The gateway's configuration\<close>

record SSO =
  UpstreamURL :: URL
  APIURL :: URL
  AppPublicURL :: URL
  StaticPath :: string
  TemplatePath :: string
  EncryptionKey :: bytes
  CSRFAuthKey :: bytes
  Authorized :: "User \<Rightarrow> bool \<times> error option"
  template :: "Template option"

subsection \<open>encrypt and decrypt\<close>

text \<open>
  \<^verbatim>\<open>
  func encrypt(plaintext, key []byte) ([]byte, []byte, error) {
      block, err := aes.NewCipher(key)
      if err != nil { return nil, nil, err }
      nonce := make([]byte, 12)
      if _, err := io.ReadFull(rand.Reader, nonce); err != nil { return nil, nil, err }
      aesgcm, err := cipher.NewGCM(block)
      if err != nil { return nil, nil, err }
      return aesgcm.Seal(nil, nonce, plaintext, nil), nonce, nil
  }
  \<close>
  The result is the ciphertext and the nonce, or the error, together with what is left of
  the random source.
\<close>

definition encrypt :: "Lib \<Rightarrow> bytes \<Rightarrow> bytes \<Rightarrow> bytes \<Rightarrow> (error + bytes \<times> bytes) \<times> bytes" where
  "encrypt lib plaintext key rnd =
     (case aes_NewCipher key of
        Inl err \<Rightarrow> (Inl err, rnd)
      | Inr block \<Rightarrow>
          (case io_ReadFull rnd 12 of
             (Inl err, rnd') \<Rightarrow> (Inl err, rnd')
           | (Inr nonce, rnd') \<Rightarrow>
               (case cipher_NewGCM block of
                  Inl err \<Rightarrow> (Inl err, rnd')
                | Inr (GCM k) \<Rightarrow> (Inr (gcm_Seal lib k nonce plaintext, nonce), rnd'))))"

text \<open>
  \<^verbatim>\<open>
  func decrypt(ciphertext, nonce, key []byte) ([]byte, error) {
      block, err := aes.NewCipher(key)
      if err != nil { return nil, err }
      aesgcm, err := cipher.NewGCM(block)
      if err != nil { return nil, err }
      plaintext, err := aesgcm.Open(nil, nonce, ciphertext, nil)
      if err != nil { return nil, err }
      return plaintext, nil
  }
  \<close>
  \<^verbatim>\<open>Open\<close> panics on a nonce that is not 12 bytes long.
\<close>

definition decrypt :: "Lib \<Rightarrow> bytes \<Rightarrow> bytes \<Rightarrow> bytes \<Rightarrow> (error + bytes) go" where
  "decrypt lib ciphertext nonce key =
     (case aes_NewCipher key of
        Inl err \<Rightarrow> Return (Inl err)
      | Inr block \<Rightarrow>
          (case cipher_NewGCM block of
             Inl err \<Rightarrow> Return (Inl err)
           | Inr (GCM k) \<Rightarrow>
               if length nonce \<noteq> 12
               then Panic ''crypto/cipher: incorrect nonce length given to GCM''
               else (case gcm_Open lib k nonce ciphertext of
                       None \<Rightarrow> Return (Inl errOpen)
                     | Some plaintext \<Rightarrow> Return (Inr plaintext))))"

subsection \<open>stateFromRequest\<close>

text \<open>
  \<^verbatim>\<open>
  cookie, err := req.Cookie("travis.sso")
  if err == http.ErrNoCookie { return nil, http.ErrNoCookie }
  if err != nil { return nil, err }
  decodedCookie, err := base64.StdEncoding.DecodeString(cookie.Value)
  if err != nil { return nil, err }
  encryptedCookie := []byte(decodedCookie)
  nonce := encryptedCookie[:12]
  encryptedCookie = encryptedCookie[12:]
  if len(nonce) != 12 { return nil, errors.New("nonce must be 12 characters in length") }
  if len(encryptedCookie) == 0 { return nil, errors.New("encrypted cookie missing") }
  b, err := decrypt(encryptedCookie, nonce, sso.EncryptionKey)
  if err != nil { return nil, err }
  var state *State
  err = json.NewDecoder(bytes.NewReader(b)).Decode(&state)
  if err != nil { return nil, err }
  return state, nil
  \<close>
  The two slice expressions come before the two length tests, as in the source.
\<close>

definition stateFromRequest :: "Lib \<Rightarrow> SSO \<Rightarrow> Request \<Rightarrow> (State option \<times> error option) go" where
  "stateFromRequest lib sso req =
     (case Request_Cookie req ''travis.sso'' of
        Inl err \<Rightarrow>
          (if err = ErrNoCookie then Return (None, Some ErrNoCookie) else Return (None, Some err))
      | Inr cookieValue \<Rightarrow>
          (case base64_DecodeString lib cookieValue of
             Inl err \<Rightarrow> Return (None, Some err)
           | Inr decodedCookie \<Rightarrow>
               (case slice_to decodedCookie 12 of
                  Panic p \<Rightarrow> Panic p
                | Exit p \<Rightarrow> Exit p
                | Return nonce \<Rightarrow>
                    (case slice_from decodedCookie 12 of
                       Panic p \<Rightarrow> Panic p
                     | Exit p \<Rightarrow> Exit p
                     | Return encryptedCookie \<Rightarrow>
                         if len nonce \<noteq> 12
                         then Return (None, Some (ErrorString ''nonce must be 12 characters in length''))
                         else if len encryptedCookie = 0
                         then Return (None, Some (ErrorString ''encrypted cookie missing''))
                         else (case decrypt lib (elems encryptedCookie) (elems nonce) (EncryptionKey sso) of
                                 Panic p \<Rightarrow> Panic p
                               | Exit p \<Rightarrow> Exit p
                               | Return (Inl err) \<Rightarrow> Return (None, Some err)
                               | Return (Inr b) \<Rightarrow>
                                   (case json_DecodeState lib b of
                                      Inl err \<Rightarrow> Return (None, Some err)
                                    | Inr state \<Rightarrow> Return (state, None)))))))"

subsection \<open>The handlers\<close>

text \<open>
  \<^verbatim>\<open>
  func (sso *SSO) setLogoutCookie(w http.ResponseWriter) {
      http.SetCookie(w, &http.Cookie{Name: "travis.sso", Value: "", Path: "/",
          Domain:  domainFromHost(sso.AppPublicURL.Host),
          Expires: time.Date(1970, time.January, 1, 1, 0, 0, 0, time.UTC)})
  }
  \<close>
\<close>

definition setLogoutCookie :: "SSO \<Rightarrow> ResponseWriter \<Rightarrow> ResponseWriter" where
  "setLogoutCookie sso w =
     http_SetCookie w
       \<lparr>Cookie.Name = ''travis.sso'', Value = [], Cookie.Path = ''/'',
        Domain = domainFromHost (Host (AppPublicURL sso)),
        Expires = time_Date_1970_Jan_1_1h\<rparr>"

text \<open>
  \<^verbatim>\<open>fwd.ServeHTTP(w, req)\<close>: the forwarder sends the request upstream and copies the
  answer (status, header, body) to the writer; the model records the request it sent.
\<close>

definition forward_ServeHTTP :: "ResponseWriter \<Rightarrow> Request \<Rightarrow> ResponseWriter" where
  "forward_ServeHTTP w req = w\<lparr>Body := Body w @ [Upstream req]\<rparr>"

text \<open>
  \<^verbatim>\<open>
  func (sso *SSO) handleProxy(w http.ResponseWriter, req *http.Request, state *State) {
      b, err := json.Marshal(state)
      if err != nil { http.Error(w, err.Error(), 500); return }
      req.URL.Scheme = sso.UpstreamURL.Scheme
      req.URL.Host = sso.UpstreamURL.Host
      req.Header.Add("Travis-State", string(b))
      fwd, _ := forward.New()
      fwd.ServeHTTP(w, req)
  }
  \<close>
\<close>

definition handleProxy :: "Lib \<Rightarrow> SSO \<Rightarrow> ResponseWriter \<Rightarrow> Request \<Rightarrow> State \<Rightarrow> ResponseWriter" where
  "handleProxy lib sso w req state =
     (case json_Marshal lib state of
        Inl err \<Rightarrow> http_Error w (Error err) 500
      | Inr b \<Rightarrow>
          (let req = req\<lparr>URL := (URL req)\<lparr>Scheme := Scheme (UpstreamURL sso)\<rparr>\<rparr>;
               req = req\<lparr>URL := (URL req)\<lparr>Host := Host (UpstreamURL sso)\<rparr>\<rparr>;
               req = req\<lparr>Header := Header_Add (Header req) ''Travis-State'' b\<rparr>
           in forward_ServeHTTP w req))"

text \<open>
  \<^verbatim>\<open>
  func (sso *SSO) handleHandshake(w http.ResponseWriter, req *http.Request) {
      if req.Method != "GET" && req.Method != "HEAD" {
          w.Header().Set("Allow", "GET, HEAD")
          http.Error(w, fmt.Sprintf(`must be <a href="%s">GET</a> request`, req.URL), 405)
          return
      }
      sso.templateOnce.Do(func() {
          var err error
          sso.template, err = template.ParseFiles(sso.TemplatePath + "/login.html")
          if err != nil { log.Fatalf("error compiling template: %v", err) }
      })
      sso.template.Execute(w, map[string]interface{}{
          "Public": "/sso/static", "Endpoint": sso.APIURL.String(),
          "Origin": sso.AppPublicURL.String(), "CSRF": csrf.Token(req)})
  }
  \<close>
  The template field is \<open>None\<close> until the once-guarded function has run; \<^verbatim>\<open>log.Fatalf\<close>
  ends the process.
\<close>

definition handleHandshake :: "Lib \<Rightarrow> SSO \<Rightarrow> ResponseWriter \<Rightarrow> Request \<Rightarrow> (ResponseWriter \<times> SSO) go" where
  \<open>handleHandshake lib sso w req =
     (if Method req \<noteq> ''GET'' \<and> Method req \<noteq> ''HEAD''
      then Return (http_Error (w\<lparr>WHeader := Header_Set (WHeader w) ''Allow'' ''GET, HEAD''\<rparr>)
                    (''must be <a href="'' @ URL_String lib (URL req) @ ''">GET</a> request'') 405,
                   sso)
      else (case (case template sso of
                    Some t \<Rightarrow> Return t
                  | None \<Rightarrow>
                      (case template_ParseFiles lib (TemplatePath sso @ ''/login.html'') of
                         Inl err \<Rightarrow> Exit (''error compiling template: '' @ Error err)
                       | Inr t \<Rightarrow> Return t)) of
              Panic p \<Rightarrow> Panic p
            | Exit p \<Rightarrow> Exit p
            | Return t \<Rightarrow>
                Return (Write w (LoginPage t
                          \<lparr>Public = ''/sso/static'',
                           Endpoint = URL_String lib (APIURL sso),
                           Origin = URL_String lib (AppPublicURL sso),
                           CSRF = csrf_Token lib req\<rparr>),
                        sso\<lparr>template := Some t\<rparr>)))\<close>

text \<open>
  \<^verbatim>\<open>
  func (sso *SSO) handleRequest(w http.ResponseWriter, req *http.Request) {
      state, err := sso.stateFromRequest(req)
      if err != nil && err != http.ErrNoCookie {
          sso.setLogoutCookie(w)
          http.Error(w, err.Error(), 500)
          return
      }
      if state != nil { sso.handleProxy(w, req, state); return }
      sso.handleHandshake(w, req)
  }
  \<close>
\<close>

definition handleRequest :: "Lib \<Rightarrow> SSO \<Rightarrow> ResponseWriter \<Rightarrow> Request \<Rightarrow> (ResponseWriter \<times> SSO) go" where
  "handleRequest lib sso w req =
     (case stateFromRequest lib sso req of
        Panic p \<Rightarrow> Panic p
      | Exit p \<Rightarrow> Exit p
      | Return (state, err) \<Rightarrow>
          (case (if err = Some ErrNoCookie then None else err) of
             Some e \<Rightarrow> Return (http_Error (setLogoutCookie sso w) (Error e) 500, sso)
           | None \<Rightarrow>
               (case state of
                  Some st \<Rightarrow> Return (handleProxy lib sso w req st, sso)
                | None \<Rightarrow> handleHandshake lib sso w req)))"

text \<open>
  \<^verbatim>\<open>handleLogin\<close> (sso.go, lines 151 to 246), branch for branch: the token is read from
  the form only for POST; an empty token redirects to \<^verbatim>\<open>/\<close>; the user is fetched from
  the API with the token; each failure answers 500, a user the policy refuses 403; else the
  state is marshalled, encrypted, prefixed with the nonce, base64-encoded and set as the
  cookie \<^verbatim>\<open>travis.sso\<close>, and the browser is redirected to \<^verbatim>\<open>/\<close>. The arguments \<open>now\<close> and
  \<open>rnd\<close> are the clock (\<^verbatim>\<open>time.Now()\<close>) and the random source; the result is the writer
  and what is left of the random source.
\<close>

definition handleLogin :: "Lib \<Rightarrow> SSO \<Rightarrow> int \<Rightarrow> bytes \<Rightarrow> ResponseWriter \<Rightarrow> Request \<Rightarrow> ResponseWriter \<times> bytes" where
  "handleLogin lib sso now rnd w req =
     (let token = (if Method req = ''POST'' then FormValue req ''sso_token'' else [])
      in if token = [] then (http_Redirect w req ''/'' 302, rnd)
      else
       (let url = APIURL sso;
            q = Header_Add (url_Query lib url) ''access_token'' token;
            url = url\<lparr>URL.Path := ''/users''\<rparr>;
            url = url\<lparr>RawQuery := Values_Encode lib q\<rparr>
        in case http_NewRequest lib ''GET'' (URL_String lib url) of
             Inl err \<Rightarrow> (http_Error w (Error err) 500, rnd)
           | Inr apiReq \<Rightarrow>
              (let apiReq = apiReq\<lparr>CHeader := Header_Add (CHeader apiReq) ''Accept''
                                       ''application/vnd.travis-ci.2+json''\<rparr>
               in case client_Do lib apiReq of
                    Inl err \<Rightarrow> (http_Error w (Error err) 500, rnd)
                  | Inr apiResp \<Rightarrow>
                     if StatusCode apiResp \<noteq> 200
                     then (http_Error w (''upstream error, code='' @ Itoa (StatusCode apiResp)
                              @ '', body='' @ RespBody apiResp @ [CHR 0x0A]) 500, rnd)
                     else
                      (case json_DecodeAPIMessage lib (RespBody apiResp) of
                         Inl err \<Rightarrow> (http_Error w (Error err) 500, rnd)
                       | Inr m \<Rightarrow>
                          (let user = MUser m
                           in case Authorized sso user of
                                (ok, Some err) \<Rightarrow> (http_Error w (Error err) 500, rnd)
                              | (ok, None) \<Rightarrow>
                                 if \<not> ok
                                 then (http_Error w (''access denied for user '' @ Login user) 403, rnd)
                                 else
                                  (let state = \<lparr>User = user, Token = token\<rparr>
                                   in case json_Marshal lib state of
                                        Inl err \<Rightarrow> (http_Error w (Error err) 500, rnd)
                                      | Inr b \<Rightarrow>
                                         (case encrypt lib b (EncryptionKey sso) rnd of
                                            (Inl err, rnd') \<Rightarrow> (http_Error w (Error err) 500, rnd')
                                          | (Inr (encryptedCookie, nonce), rnd') \<Rightarrow>
                                             (let encryptedCookie = nonce @ encryptedCookie;
                                                  encodedCookie = base64_EncodeToString lib encryptedCookie;
                                                  w = http_SetCookie w
                                                        \<lparr>Cookie.Name = ''travis.sso'',
                                                         Value = encodedCookie,
                                                         Cookie.Path = ''/'',
                                                         Domain = domainFromHost (Host (AppPublicURL sso)),
                                                         Expires = now + 365 * 24 * time_Hour\<rparr>
                                              in (http_Redirect w req ''/'' 302, rnd')))))))))"

text \<open>
  The policy that \<^verbatim>\<open>main\<close> installs: membership of the login in the list of authorized
  users, and never an error.
\<close>

definition main_Authorized :: "string list \<Rightarrow> User \<Rightarrow> bool \<times> error option" where
  "main_Authorized authUsers u = (Login u \<in> set authUsers, None)"

text \<open>
  The request \<^verbatim>\<open>handleLogin\<close> sends to the identity provider for a token, and the
  provider's answer to it: the two library calls of the handler, in its order.
\<close>

definition login_api_url :: "Lib \<Rightarrow> SSO \<Rightarrow> string \<Rightarrow> string" where
  "login_api_url lib sso token =
     URL_String lib ((APIURL sso)
       \<lparr>URL.Path := ''/users'',
        RawQuery := Values_Encode lib (Header_Add (url_Query lib (APIURL sso)) ''access_token'' token)\<rparr>)"

definition identity_provider_answer :: "Lib \<Rightarrow> SSO \<Rightarrow> string \<Rightarrow> error + ClientResponse" where
  "identity_provider_answer lib sso token =
     (case http_NewRequest lib ''GET'' (login_api_url lib sso token) of
        Inl err \<Rightarrow> Inl err
      | Inr apiReq \<Rightarrow>
          client_Do lib (apiReq\<lparr>CHeader := Header_Add (CHeader apiReq) ''Accept''
                                  ''application/vnd.travis-ci.2+json''\<rparr>))"


subsection \<open>What a response shows\<close>

text \<open>The login pages a response has rendered, and the requests it has sent upstream.\<close>

definition rendered :: "ResponseWriter \<Rightarrow> (Template \<times> LoginParams) list" where
  "rendered w = concat (map (\<lambda>c. case c of LoginPage t p \<Rightarrow> [(t, p)] | _ \<Rightarrow> []) (Body w))"

definition forwarded :: "ResponseWriter \<Rightarrow> Request list" where
  "forwarded w = concat (map (\<lambda>c. case c of Upstream r \<Rightarrow> [r] | _ \<Rightarrow> []) (Body w))"

subsection \<open>A reference instance of the library parameters\<close>

text \<open>
  The theorems below hold for every value of the library parameters. To run the model on
  concrete requests the parameters are instantiated here: base64 with the standard
  alphabet and padding (RFC 4648, input without line breaks; an error carries the offset
  of the quantum that failed), JSON as the encoder writes it for field values that need
  no escaping, with a decoder that knows the given users and tokens, and, in place of
  AES-GCM, a stand-in that keeps its interface (a 16-byte tag after the body, opening
  fails on a wrong tag) and none of its secrecy. The identity provider answers 200 with
  the user a token belongs to, and 403 for any other token.
\<close>

definition b64_alphabet :: string where
  "b64_alphabet = ''ABCDEFGHIJKLMNOPQRSTUVWXYZabcdefghijklmnopqrstuvwxyz0123456789+/''"

definition b64_char :: "nat \<Rightarrow> char" where
  "b64_char i = b64_alphabet ! (i mod 64)"

fun index_from :: "nat \<Rightarrow> char \<Rightarrow> string \<Rightarrow> nat option" where
  "index_from n c [] = None"
| "index_from n c (x # xs) = (if c = x then Some n else index_from (n + 1) c xs)"

definition b64_index :: "char \<Rightarrow> nat option" where
  "b64_index c = index_from 0 c b64_alphabet"

definition byte_of_nat :: "nat \<Rightarrow> char" where
  "byte_of_nat n = Char (odd n) (odd (n div 2)) (odd (n div 4)) (odd (n div 8))
                        (odd (n div 16)) (odd (n div 32)) (odd (n div 64)) (odd (n div 128))"

fun b64_encode :: "bytes \<Rightarrow> string" where
  "b64_encode [] = []"
| "b64_encode [a] =
     (let n = of_char a * 16
      in [b64_char (n div 64), b64_char n, CHR ''='', CHR ''=''])"
| "b64_encode [a, b] =
     (let n = (of_char a * 256 + of_char b) * 4
      in [b64_char (n div 64 div 64), b64_char (n div 64), b64_char n, CHR ''=''])"
| "b64_encode (a # b # c # rest) =
     (let n = (of_char a * 256 + of_char b) * 256 + of_char c
      in [b64_char (n div 64 div 64 div 64), b64_char (n div 64 div 64), b64_char (n div 64),
          b64_char n] @ b64_encode rest)"

fun b64_quanta :: "nat \<Rightarrow> string \<Rightarrow> error + bytes \<times> bytes" where
  "b64_quanta p [] = Inr ([], [])"
| "b64_quanta p (a # b # c # d # rest) =
     (case (b64_index a, b64_index b) of
        (Some i, Some j) \<Rightarrow>
          (if c = CHR ''='' \<and> d = CHR ''='' \<and> rest = []
           then Inr ([byte_of_nat ((i * 64 + j) div 16)], [CHR 0x00, CHR 0x00])
           else (case b64_index c of
                   None \<Rightarrow> Inl (CorruptInputError p)
                 | Some k \<Rightarrow>
                     (if d = CHR ''='' \<and> rest = []
                      then Inr ([byte_of_nat (((i * 64 + j) * 64 + k) div 4 div 256),
                                 byte_of_nat (((i * 64 + j) * 64 + k) div 4)], [CHR 0x00])
                      else (case b64_index d of
                              None \<Rightarrow> Inl (CorruptInputError p)
                            | Some l \<Rightarrow>
                                (case b64_quanta (p + 4) rest of
                                   Inl e \<Rightarrow> Inl e
                                 | Inr (bs, sl) \<Rightarrow>
                                     Inr (byte_of_nat ((((i * 64 + j) * 64 + k) * 64 + l) div 256 div 256)
                                          # byte_of_nat ((((i * 64 + j) * 64 + k) * 64 + l) div 256)
                                          # byte_of_nat (((i * 64 + j) * 64 + k) * 64 + l) # bs,
                                          sl))))))
      | _ \<Rightarrow> Inl (CorruptInputError p))"
| "b64_quanta p _ = Inl (CorruptInputError p)"

definition b64_decode :: "string \<Rightarrow> error + slice" where
  "b64_decode s =
     (case b64_quanta 0 s of
        Inl e \<Rightarrow> Inl e
      | Inr (bs, sl) \<Rightarrow> Inr \<lparr>elems = bs, slack = sl\<rparr>)"

definition json_bool :: "bool \<Rightarrow> string" where
  "json_bool b = (if b then ''true'' else ''false'')"

definition json_int :: "int \<Rightarrow> string" where
  "json_int i = (if i < 0 then CHR ''-'' # Itoa (nat (- i)) else Itoa (nat i))"

definition json_string :: "string \<Rightarrow> string" where
  \<open>json_string s = ''"'' @ s @ ''"''\<close>

definition json_User :: "User \<Rightarrow> string" where
  \<open>json_User u =
     ''{"id":'' @ json_int (ID u)
     @ '',"name":'' @ json_string (User.Name u)
     @ '',"login":'' @ json_string (Login u)
     @ '',"email":'' @ json_string (Email u)
     @ '',"gravatar_id":'' @ json_string (GravatarID u)
     @ '',"is_syncing":'' @ json_bool (IsSyncing u)
     @ '',"synced_at":'' @ json_string (SyncedAt u)
     @ '',"correct_scopes":'' @ json_bool (CorrectScopes u)
     @ '',"created_at":'' @ json_string (CreatedAt u) @ ''}''\<close>

definition json_State :: "State \<Rightarrow> string" where
  \<open>json_State st =
     ''{"user":'' @ json_User (User st) @ '',"token":'' @ json_string (Token st) @ ''}''\<close>

definition json_APIMessage :: "APIMessage \<Rightarrow> string" where
  \<open>json_APIMessage m = ''{"user":'' @ json_User (MUser m) @ ''}''\<close>

definition standin_tag :: "bytes \<Rightarrow> bytes \<Rightarrow> bytes" where
  "standin_tag key nonce = take 16 (nonce @ key)"

definition standin_Seal :: "bytes \<Rightarrow> bytes \<Rightarrow> bytes \<Rightarrow> bytes" where
  "standin_Seal key nonce plaintext = rev plaintext @ standin_tag key nonce"

definition standin_Open :: "bytes \<Rightarrow> bytes \<Rightarrow> bytes \<Rightarrow> bytes option" where
  "standin_Open key nonce ciphertext =
     (if 16 \<le> length ciphertext
         \<and> drop (length ciphertext - 16) ciphertext = standin_tag key nonce
      then Some (rev (take (length ciphertext - 16) ciphertext))
      else None)"

definition standin_lib :: "User list \<Rightarrow> string list \<Rightarrow> Lib" where
  \<open>standin_lib users tokens =
     \<lparr>base64_DecodeString = b64_decode,
      base64_EncodeToString = b64_encode,
      gcm_Seal = standin_Seal,
      gcm_Open = standin_Open,
      json_Marshal = (\<lambda>st. Inr (json_State st)),
      json_DecodeState =
        (\<lambda>b. if b = ''null'' then Inr None
             else (case find (\<lambda>st. json_State st = b)
                          (concat (map (\<lambda>u. map (\<lambda>t. \<lparr>User = u, Token = t\<rparr>) tokens) users)) of
                     Some st \<Rightarrow> Inr (Some st)
                   | None \<Rightarrow> Inl (OtherError ''invalid character''))),
      json_DecodeAPIMessage =
        (\<lambda>b. case find (\<lambda>u. json_APIMessage \<lparr>MUser = u\<rparr> = b) users of
               Some u \<Rightarrow> Inr \<lparr>MUser = u\<rparr>
             | None \<Rightarrow> Inl (OtherError ''invalid character'')),
      url_Query = (\<lambda>u k. []),
      Values_Encode = (\<lambda>q. ''access_token='' @ concat (take 1 (q ''access_token''))),
      URL_String =
        (\<lambda>u. Scheme u @ ''://'' @ Host u @ URL.Path u
             @ (if RawQuery u = [] then [] else CHR ''?'' # RawQuery u)),
      http_NewRequest = (\<lambda>m u. Inr \<lparr>CMethod = m, CURL = u, CHeader = (\<lambda>k. [])\<rparr>),
      client_Do =
        (\<lambda>r. case find (\<lambda>(u, t). t = drop (length (CURL r) - length t) (CURL r))
                      (zip users tokens) of
               Some (u, t) \<Rightarrow> Inr \<lparr>StatusCode = 200, RespBody = json_APIMessage \<lparr>MUser = u\<rparr>\<rparr>
             | None \<Rightarrow> Inr \<lparr>StatusCode = 403, RespBody = ''access denied''\<rparr>),
      template_ParseFiles = (\<lambda>p. Inr (Template p)),
      csrf_Token = (\<lambda>r. ''csrf'')\<rparr>\<close>

definition alice :: User where
  "alice = \<lparr>ID = 1, User.Name = ''Alice'', Login = ''alice'', Email = ''alice@example.org'',
            GravatarID = [], IsSyncing = False, SyncedAt = [], CorrectScopes = True,
            CreatedAt = []\<rparr>"

definition example_key :: bytes where
  "example_key = ''sa8OoLei6eWiezah9ohk8Wah6Ow6pee9''"

definition example_sso :: "string list \<Rightarrow> SSO" where
  "example_sso authUsers =
     \<lparr>UpstreamURL = \<lparr>Scheme = ''http'', Host = ''localhost:8081'', URL.Path = [], RawQuery = []\<rparr>,
      APIURL = \<lparr>Scheme = ''https'', Host = ''api.github.com'', URL.Path = [], RawQuery = []\<rparr>,
      AppPublicURL = \<lparr>Scheme = ''http'', Host = ''localhost:8080'', URL.Path = [], RawQuery = []\<rparr>,
      StaticPath = ''./static'',
      TemplatePath = ''./template'',
      EncryptionKey = example_key,
      CSRFAuthKey = ''oxei9aebonogh1Gaina4ePaitheechei'',
      Authorized = main_Authorized authUsers,
      template = None\<rparr>"

definition example_request :: "string \<Rightarrow> string \<Rightarrow> (string \<times> string) list \<Rightarrow> (string \<times> string) list \<Rightarrow> Request" where
  "example_request method path cookies form =
     \<lparr>Method = method,
      URL = \<lparr>Scheme = [], Host = [], URL.Path = path, RawQuery = []\<rparr>,
      Header = (\<lambda>k. []),
      Cookies = cookies,
      Form = (\<lambda>k. case map_of form k of None \<Rightarrow> [] | Some v \<Rightarrow> [v])\<rparr>"

definition NewResponseWriter :: ResponseWriter where
  "NewResponseWriter = \<lparr>WHeader = (\<lambda>k. []), SetCookies = [], Code = None, Body = []\<rparr>"

text \<open>The same gateway, published at the IPv6 loopback address.\<close>

definition example_sso_ipv6 :: "string list \<Rightarrow> SSO" where
  "example_sso_ipv6 authUsers =
     (example_sso authUsers)
       \<lparr>AppPublicURL := \<lparr>Scheme = ''http'', Host = ''[::1]:8080'', URL.Path = [], RawQuery = []\<rparr>\<rparr>"

definition example_state :: State where
  "example_state = \<lparr>User = alice, Token = ''T''\<rparr>"

text \<open>The cookie of \<open>example_state\<close> under \<open>example_key\<close> and the nonce \<^verbatim>\<open>0123456789ab\<close>.\<close>

definition example_cookie :: string where
  "example_cookie =
     b64_encode (''0123456789ab'' @ standin_Seal example_key ''0123456789ab'' (json_State example_state))"


subsection \<open>Theorems: domainFromHost\<close>

lemma strings_Index_colon_absent:
  "CHR '':'' \<notin> set s \<Longrightarrow> strings_Index s '':'' = - 1"
  by (induction s) auto

lemma strings_Index_colon_first:
  "CHR '':'' \<notin> set pre \<Longrightarrow> strings_Index (pre @ CHR '':'' # rest) '':'' = int (length pre)"
  by (induction pre) auto

text \<open>
  Claim C10. \<^verbatim>\<open>domainFromHost\<close> returns the prefix before the first colon only when that
  colon is at an index greater than zero: a host \<open>pre @ ':' # rest\<close> with no colon in the
  non-empty \<open>pre\<close> gives \<open>pre\<close>; a host with no colon, and a host that starts with a colon,
  come back unchanged. So the bracketed IPv6 host \<^verbatim>\<open>[::1]:8080\<close> is cut at its first
  colon, which gives \<^verbatim>\<open>[\<close>, and not at the colon before the port.
\<close>

theorem domainFromHost_first_colon:
  "(CHR '':'' \<notin> set pre \<and> pre \<noteq> [] \<longrightarrow> domainFromHost (pre @ CHR '':'' # rest) = pre)
   \<and> (CHR '':'' \<notin> set host \<longrightarrow> domainFromHost host = host)
   \<and> domainFromHost (CHR '':'' # rest) = CHR '':'' # rest
   \<and> domainFromHost ''[::1]:8080'' = ''[''"
proof (intro conjI impI)
  assume "CHR '':'' \<notin> set pre \<and> pre \<noteq> []"
  then show "domainFromHost (pre @ CHR '':'' # rest) = pre"
    by (simp add: domainFromHost_def strings_Index_colon_first)
next
  assume "CHR '':'' \<notin> set host"
  then show "domainFromHost host = host"
    by (simp add: domainFromHost_def strings_Index_colon_absent)
next
  show "domainFromHost (CHR '':'' # rest) = CHR '':'' # rest"
    by (simp add: domainFromHost_def)
next
  show "domainFromHost ''[::1]:8080'' = ''[''"
    by (simp add: domainFromHost_def)
qed

theorem domainFromHost_first_colon_witness:
  "domainFromHost ''localhost:8080'' = ''localhost''
   \<and> domainFromHost ''example.org'' = ''example.org''
   \<and> domainFromHost '':8080'' = '':8080''"
  using domainFromHost_first_colon [of "''localhost''" "''8080''" "''example.org''"]
  by simp

subsection \<open>The reference base64 codec decodes what it encodes\<close>

lemma index_from_nth:
  "distinct xs \<Longrightarrow> i < length xs \<Longrightarrow> index_from n (xs ! i) xs = Some (n + i)"
proof (induction xs arbitrary: i n)
  case Nil
  then show ?case by simp
next
  case (Cons x xs)
  show ?case
  proof (cases i)
    case 0
    then show ?thesis by simp
  next
    case (Suc j)
    with Cons.prems have "xs ! j \<noteq> x"
      by auto
    with Suc Cons show ?thesis
      by auto
  qed
qed

lemma b64_index_char: "b64_index (b64_char i) = Some (i mod 64)"
proof -
  have "distinct b64_alphabet" and "length b64_alphabet = 64"
    by (simp_all add: b64_alphabet_def)
  then have "index_from 0 (b64_alphabet ! (i mod 64)) b64_alphabet = Some (0 + i mod 64)"
    by (intro index_from_nth) simp_all
  then show ?thesis
    by (simp add: b64_index_def b64_char_def)
qed

lemma b64_char_not_pad: "b64_char i \<noteq> CHR ''=''"
proof -
  have "CHR ''='' \<notin> set b64_alphabet" and "length b64_alphabet = 64"
    by (simp_all add: b64_alphabet_def)
  moreover have "b64_char i \<in> set b64_alphabet"
    unfolding b64_char_def using \<open>length b64_alphabet = 64\<close> by (intro nth_mem) simp
  ultimately show ?thesis
    by metis
qed

lemma byte_of_nat_char_of: "byte_of_nat n = char_of n"
  by (simp add: byte_of_nat_def char_of_def bit_iff_odd_drop_bit drop_bit_eq_div)

lemma div_mult_add:
  fixes x c m :: nat
  assumes "c < m"
  shows "(x * m + c) div m = x" and "(x * m + c) mod m = c"
  using assms by simp_all

lemma sextets:
  fixes n :: nat
  shows "((n div 64 div 64 div 64 * 64 + n div 64 div 64 mod 64) * 64 + n div 64 mod 64) * 64
           + n mod 64 = n"
  by (simp only: div_mult_mod_eq)

lemma of_char_lt: "(of_char c :: nat) < 256"
  by simp

lemma small24:
  fixes A B C :: nat
  assumes "A < 256" "B < 256" "C < 256"
  shows "((A * 256 + B) * 256 + C) div 64 div 64 div 64 < 64"
proof -
  have "(A * 256 + B) * 256 + C < 262144 * 64"
    using assms by simp
  then have "((A * 256 + B) * 256 + C) div 64 < 262144"
    by (rule less_mult_imp_div_less)
  then have "((A * 256 + B) * 256 + C) div 64 < 4096 * 64"
    by simp
  then have "((A * 256 + B) * 256 + C) div 64 div 64 < 4096"
    by (rule less_mult_imp_div_less)
  then have "((A * 256 + B) * 256 + C) div 64 div 64 < 64 * 64"
    by simp
  then show ?thesis
    by (rule less_mult_imp_div_less)
qed

lemma quantum3:
  fixes A B C :: nat
  assumes "A < 256" "B < 256" "C < 256"
  defines "n \<equiv> (A * 256 + B) * 256 + C"
  shows "((n div 64 div 64 div 64 mod 64 * 64 + n div 64 div 64 mod 64) * 64 + n div 64 mod 64) * 64
           + n mod 64 = n"
proof -
  have "n div 64 div 64 div 64 mod 64 = n div 64 div 64 div 64"
    unfolding n_def using small24 [OF assms(1-3)] by simp
  then show ?thesis
    by (simp only: sextets)
qed

lemma quantum2:
  fixes A B :: nat
  assumes "A < 256" "B < 256"
  defines "n \<equiv> (A * 256 + B) * 4"
  shows "(n div 64 div 64 mod 64 * 64 + n div 64 mod 64) * 64 + n mod 64 = n"
proof -
  have "n < 4096 * 64"
    unfolding n_def using assms(1,2) by simp
  then have "n div 64 < 4096"
    by (rule less_mult_imp_div_less)
  then have "n div 64 < 64 * 64"
    by simp
  then have "n div 64 div 64 < 64"
    by (rule less_mult_imp_div_less)
  then have "n div 64 div 64 mod 64 = n div 64 div 64"
    by simp
  then show ?thesis
    by (simp only: div_mult_mod_eq)
qed

lemma quantum1:
  fixes A :: nat
  assumes "A < 256"
  defines "n \<equiv> A * 16"
  shows "n div 64 mod 64 * 64 + n mod 64 = n"
proof -
  have "n < 64 * 64"
    unfolding n_def using assms(1) by simp
  then have "n div 64 < 64"
    by (rule less_mult_imp_div_less)
  then have "n div 64 mod 64 = n div 64"
    by simp
  then show ?thesis
    by (simp only: div_mult_mod_eq)
qed

lemma byte3:
  "byte_of_nat (((of_char a * 256 + of_char b) * 256 + of_char c) div 256 div 256) = a"
  "byte_of_nat (((of_char a * 256 + of_char b) * 256 + of_char c) div 256) = b"
  "byte_of_nat ((of_char a * 256 + of_char b) * 256 + of_char c) = c"
proof -
  have 1: "((of_char a * 256 + of_char b) * 256 + of_char c) div 256 = of_char a * 256 + (of_char b :: nat)"
    by (rule div_mult_add) (rule of_char_lt)
  have 2: "(of_char a * 256 + of_char b) div 256 = (of_char a :: nat)"
    by (rule div_mult_add) (rule of_char_lt)
  show "byte_of_nat (((of_char a * 256 + of_char b) * 256 + of_char c) div 256 div 256) = a"
    by (simp only: 1 2 byte_of_nat_char_of char_of_char)
  have "char_of ((of_char a * 256 + of_char b :: nat) mod 256) = b"
    by (simp only: div_mult_add(2) [OF of_char_lt] char_of_char)
  then show "byte_of_nat (((of_char a * 256 + of_char b) * 256 + of_char c) div 256) = b"
    by (simp only: 1 byte_of_nat_char_of char_of_mod_256)
  have "char_of (((of_char a * 256 + of_char b) * 256 + of_char c :: nat) mod 256) = c"
    by (simp only: div_mult_add(2) [OF of_char_lt] char_of_char)
  then show "byte_of_nat ((of_char a * 256 + of_char b) * 256 + of_char c) = c"
    by (simp only: byte_of_nat_char_of char_of_mod_256)
qed

lemma byte2:
  "byte_of_nat ((of_char a * 256 + of_char b) * 4 div 4 div 256) = a"
  "byte_of_nat ((of_char a * 256 + of_char b) * 4 div 4) = b"
proof -
  have 1: "(of_char a * 256 + of_char b) * 4 div 4 = of_char a * 256 + (of_char b :: nat)"
    by simp
  have 2: "(of_char a * 256 + of_char b) div 256 = (of_char a :: nat)"
    by (rule div_mult_add) (rule of_char_lt)
  show "byte_of_nat ((of_char a * 256 + of_char b) * 4 div 4 div 256) = a"
    by (simp only: 1 2 byte_of_nat_char_of char_of_char)
  have "char_of ((of_char a * 256 + of_char b :: nat) mod 256) = b"
    by (simp only: div_mult_add(2) [OF of_char_lt] char_of_char)
  then show "byte_of_nat ((of_char a * 256 + of_char b) * 4 div 4) = b"
    by (simp only: 1 byte_of_nat_char_of char_of_mod_256)
qed

lemma byte1: "byte_of_nat (of_char a * 16 div 16) = a"
proof -
  have "of_char a * 16 div 16 = (of_char a :: nat)"
    by simp
  then show ?thesis
    by (simp only: byte_of_nat_char_of char_of_char)
qed

lemma b64_quanta_pad2:
  "b64_quanta p [b64_char x, b64_char y, CHR ''='', CHR ''='']
   = Inr ([byte_of_nat ((x mod 64 * 64 + y mod 64) div 16)], [CHR 0x00, CHR 0x00])"
  by (simp add: b64_index_char)

lemma b64_quanta_pad1:
  "b64_quanta p [b64_char x, b64_char y, b64_char z, CHR ''='']
   = Inr ([byte_of_nat (((x mod 64 * 64 + y mod 64) * 64 + z mod 64) div 4 div 256),
           byte_of_nat (((x mod 64 * 64 + y mod 64) * 64 + z mod 64) div 4)], [CHR 0x00])"
  by (simp add: b64_index_char b64_char_not_pad)

lemma b64_quanta_full:
  "b64_quanta (p + 4) rest = Inr (bs, sl) \<Longrightarrow>
   b64_quanta p ([b64_char x, b64_char y, b64_char z, b64_char w] @ rest)
   = Inr (byte_of_nat ((((x mod 64 * 64 + y mod 64) * 64 + z mod 64) * 64 + w mod 64) div 256 div 256)
          # byte_of_nat ((((x mod 64 * 64 + y mod 64) * 64 + z mod 64) * 64 + w mod 64) div 256)
          # byte_of_nat (((x mod 64 * 64 + y mod 64) * 64 + z mod 64) * 64 + w mod 64) # bs, sl)"
  by (simp add: b64_index_char b64_char_not_pad)

lemma b64_quanta_encode: "\<exists>sl. b64_quanta p (b64_encode x) = Inr (x, sl)"
proof (induction x arbitrary: p rule: b64_encode.induct)
  case 1
  show ?case by simp
next
  case (2 a)
  have "b64_quanta p (b64_encode [a]) = Inr ([a], [CHR 0x00, CHR 0x00])"
    unfolding b64_encode.simps Let_def b64_quanta_pad2
    by (simp only: quantum1 [OF of_char_lt] byte1)
  then show ?case by blast
next
  case (3 a b)
  have "b64_quanta p (b64_encode [a, b]) = Inr ([a, b], [CHR 0x00])"
    unfolding b64_encode.simps Let_def b64_quanta_pad1
    by (simp only: quantum2 [OF of_char_lt of_char_lt] byte2)
  then show ?case by blast
next
  case (4 a b c rest)
  from "4.IH" obtain sl where rest: "b64_quanta (p + 4) (b64_encode rest) = Inr (rest, sl)"
    by blast
  have "b64_quanta p (b64_encode (a # b # c # rest)) = Inr (a # b # c # rest, sl)"
    unfolding b64_encode.simps Let_def b64_quanta_full [OF rest]
    by (simp only: quantum3 [OF of_char_lt of_char_lt of_char_lt] byte3)
  then show ?case by blast
qed

lemma b64_decode_encode: "\<exists>sl. b64_decode (b64_encode x) = Inr \<lparr>elems = x, slack = sl\<rparr>"
proof -
  obtain sl where "b64_quanta 0 (b64_encode x) = Inr (x, sl)"
    using b64_quanta_encode by blast
  then show ?thesis
    by (simp add: b64_decode_def)
qed

lemma standin_Open_Seal:
  "16 \<le> length nonce + length key
   \<Longrightarrow> standin_Open key nonce (standin_Seal key nonce plaintext) = Some plaintext"
  by (simp add: standin_Open_def standin_Seal_def standin_tag_def)

subsection \<open>Theorems: encrypt and decrypt\<close>

lemma aes_NewCipher_32: "length key = 32 \<Longrightarrow> aes_NewCipher key = Inr (AESBlock key)"
  by (simp add: aes_NewCipher_def)

lemma aes_NewCipher_bad:
  "length key \<noteq> 16 \<Longrightarrow> length key \<noteq> 24 \<Longrightarrow> length key \<noteq> 32
   \<Longrightarrow> aes_NewCipher key = Inl (KeySizeError (length key))"
  by (simp add: aes_NewCipher_def)

lemma io_ReadFull_enough:
  "n \<le> length src \<Longrightarrow> io_ReadFull src n = (Inr (take n src), drop n src)"
  by (simp add: io_ReadFull_def)

lemma encrypt_32:
  "length key = 32 \<Longrightarrow> 12 \<le> length rnd
   \<Longrightarrow> encrypt lib plaintext key rnd
       = (Inr (gcm_Seal lib key (take 12 rnd) plaintext, take 12 rnd), drop 12 rnd)"
  by (simp add: encrypt_def aes_NewCipher_32 io_ReadFull_enough)

lemma decrypt_32:
  "length key = 32 \<Longrightarrow> length nonce = 12
   \<Longrightarrow> decrypt lib ciphertext nonce key
       = (case gcm_Open lib key nonce ciphertext of
            None \<Rightarrow> Return (Inl errOpen) | Some plaintext \<Rightarrow> Return (Inr plaintext))"
  by (simp add: decrypt_def aes_NewCipher_32)

lemma json_Marshal_standin: "json_Marshal (standin_lib users tokens) st = Inr (json_State st)"
  by (simp add: standin_lib_def)

lemma gcm_standin:
  "gcm_Seal (standin_lib users tokens) = standin_Seal"
  "gcm_Open (standin_lib users tokens) = standin_Open"
  by (simp_all add: standin_lib_def)

lemma json_DecodeState_example:
  "json_DecodeState (standin_lib [alice] [''T'']) (json_State example_state)
   = Inr (Some example_state)"
  by (simp add: standin_lib_def example_state_def json_State_def json_string_def)

text \<open>
  Claim C2. For every 32-byte key and every session, encrypting the JSON serialization
  \<open>b\<close> of the session succeeds when the random source delivers the 12 bytes of the nonce,
  and decrypting the ciphertext with the same key and the returned nonce succeeds and gives
  back \<open>b\<close>, the serialized session, byte for byte; so where the JSON decoder reads \<open>b\<close>
  as the session, it reads the decrypted plaintext as the session. The library's part is a
  hypothesis: opening under a key and nonce what was sealed under them gives the plaintext.
\<close>

theorem encrypt_decrypt_roundtrip:
  assumes key: "length key = 32"
    and rnd: "12 \<le> length rnd"
    and marshal: "json_Marshal lib session = Inr b"
    and gcm: "gcm_Open lib key (take 12 rnd) (gcm_Seal lib key (take 12 rnd) b) = Some b"
  shows "\<exists>ciphertext nonce rnd'.
           encrypt lib b key rnd = (Inr (ciphertext, nonce), rnd')
           \<and> length nonce = 12
           \<and> decrypt lib ciphertext nonce key = Return (Inr b)
           \<and> (json_DecodeState lib b = Inr (Some session) \<longrightarrow>
                (case decrypt lib ciphertext nonce key of
                   Return (Inr plaintext) \<Rightarrow> json_DecodeState lib plaintext = Inr (Some session)
                 | _ \<Rightarrow> False))"
proof -
  let ?nonce = "take 12 rnd"
  let ?ct = "gcm_Seal lib key ?nonce b"
  have enc: "encrypt lib b key rnd = (Inr (?ct, ?nonce), drop 12 rnd)"
    using key rnd by (rule encrypt_32)
  have n: "length ?nonce = 12"
    using rnd by simp
  with key have dec: "decrypt lib ?ct ?nonce key = Return (Inr b)"
    by (simp add: decrypt_32 gcm)
  then have "json_DecodeState lib b = Inr (Some session) \<longrightarrow>
      (case decrypt lib ?ct ?nonce key of
         Return (Inr plaintext) \<Rightarrow> json_DecodeState lib plaintext = Inr (Some session)
       | _ \<Rightarrow> False)"
    by simp
  with enc n dec show ?thesis
    by blast
qed

theorem encrypt_decrypt_roundtrip_witness:
  "\<exists>ciphertext nonce rnd'.
     encrypt (standin_lib [alice] [''T'']) (json_State example_state) example_key
        ''0123456789abcdef''
       = (Inr (ciphertext, nonce), rnd')
     \<and> length nonce = 12
     \<and> decrypt (standin_lib [alice] [''T'']) ciphertext nonce example_key
       = Return (Inr (json_State example_state))
     \<and> json_DecodeState (standin_lib [alice] [''T'']) (json_State example_state)
       = Inr (Some example_state)
     \<and> (case decrypt (standin_lib [alice] [''T'']) ciphertext nonce example_key of
          Return (Inr plaintext) \<Rightarrow>
            json_DecodeState (standin_lib [alice] [''T'']) plaintext = Inr (Some example_state)
        | _ \<Rightarrow> False)"
proof -
  have key: "length example_key = 32"
    by (simp add: example_key_def)
  have rnd: "12 \<le> length ''0123456789abcdef''"
    by simp
  have marshal: "json_Marshal (standin_lib [alice] [''T'']) example_state
                 = Inr (json_State example_state)"
    by (rule json_Marshal_standin)
  have gcm: "gcm_Open (standin_lib [alice] [''T'']) example_key (take 12 ''0123456789abcdef'')
          (gcm_Seal (standin_lib [alice] [''T'']) example_key (take 12 ''0123456789abcdef'')
             (json_State example_state))
        = Some (json_State example_state)"
    by (simp add: gcm_standin standin_Open_Seal example_key_def)
  from encrypt_decrypt_roundtrip [OF key rnd marshal gcm] json_DecodeState_example
  show ?thesis
    by blast
qed

lemma aes_NewCipher_ok:
  "length key = 16 \<or> length key = 24 \<or> length key = 32 \<Longrightarrow> aes_NewCipher key = Inr (AESBlock key)"
  by (auto simp add: aes_NewCipher_def)

lemma encrypt_no_KeySizeError:
  assumes "length key = 16 \<or> length key = 24 \<or> length key = 32"
  shows "fst (encrypt lib plaintext key rnd) \<noteq> Inl (KeySizeError k)"
  using assms
  by (auto simp add: encrypt_def aes_NewCipher_ok io_ReadFull_def)

lemma decrypt_no_KeySizeError:
  assumes "length key = 16 \<or> length key = 24 \<or> length key = 32"
  shows "decrypt lib ciphertext nonce key \<noteq> Return (Inl (KeySizeError k))"
  using assms
  by (auto simp add: decrypt_def aes_NewCipher_ok errOpen_def split: option.splits)

text \<open>
  Claim C6, as the code has it. \<^verbatim>\<open>encrypt\<close> and \<^verbatim>\<open>decrypt\<close> take the key check of
  \<^verbatim>\<open>aes.NewCipher\<close>. For every key whose length is none of 16, 24 and 32 bytes both fail
  with the key size error, whatever the plaintext, ciphertext, nonce and random source.
  With a key of 16, 24 or 32 bytes neither fails with a key size error: \<^verbatim>\<open>encrypt\<close> returns
  the sealed plaintext and the 12-byte nonce whenever the random source delivers 12 bytes,
  and \<^verbatim>\<open>decrypt\<close> with a 12-byte nonce returns what opening gives, the plaintext or the
  authentication error.
\<close>

theorem encrypt_decrypt_key_size:
  "(length key \<noteq> 16 \<and> length key \<noteq> 24 \<and> length key \<noteq> 32 \<longrightarrow>
      fst (encrypt lib plaintext key rnd) = Inl (KeySizeError (length key))
      \<and> decrypt lib ciphertext nonce key = Return (Inl (KeySizeError (length key))))
   \<and> ((length key = 16 \<or> length key = 24 \<or> length key = 32) \<and> 12 \<le> length rnd \<longrightarrow>
      encrypt lib plaintext key rnd
        = (Inr (gcm_Seal lib key (take 12 rnd) plaintext, take 12 rnd), drop 12 rnd))
   \<and> ((length key = 16 \<or> length key = 24 \<or> length key = 32) \<and> length nonce = 12 \<longrightarrow>
      decrypt lib ciphertext nonce key
        = (case gcm_Open lib key nonce ciphertext of
             None \<Rightarrow> Return (Inl errOpen)
           | Some opened \<Rightarrow> Return (Inr opened)))
   \<and> (length key = 16 \<or> length key = 24 \<or> length key = 32 \<longrightarrow>
      (\<forall>k. fst (encrypt lib plaintext key rnd) \<noteq> Inl (KeySizeError k)
           \<and> decrypt lib ciphertext nonce key \<noteq> Return (Inl (KeySizeError k))))"
proof (intro conjI impI allI)
  assume "length key \<noteq> 16 \<and> length key \<noteq> 24 \<and> length key \<noteq> 32"
  then have bad: "aes_NewCipher key = Inl (KeySizeError (length key))"
    by (simp add: aes_NewCipher_bad)
  show "fst (encrypt lib plaintext key rnd) = Inl (KeySizeError (length key))"
    by (simp add: encrypt_def bad)
  show "decrypt lib ciphertext nonce key = Return (Inl (KeySizeError (length key)))"
    by (simp add: decrypt_def bad)
next
  assume "(length key = 16 \<or> length key = 24 \<or> length key = 32) \<and> 12 \<le> length rnd"
  then show "encrypt lib plaintext key rnd
        = (Inr (gcm_Seal lib key (take 12 rnd) plaintext, take 12 rnd), drop 12 rnd)"
    by (simp add: encrypt_def aes_NewCipher_ok io_ReadFull_enough)
next
  assume "(length key = 16 \<or> length key = 24 \<or> length key = 32) \<and> length nonce = 12"
  then show "decrypt lib ciphertext nonce key
        = (case gcm_Open lib key nonce ciphertext of
             None \<Rightarrow> Return (Inl errOpen)
           | Some opened \<Rightarrow> Return (Inr opened))"
    by (simp add: decrypt_def aes_NewCipher_ok)
next
  fix k
  assume ok: "length key = 16 \<or> length key = 24 \<or> length key = 32"
  show "fst (encrypt lib plaintext key rnd) \<noteq> Inl (KeySizeError k)"
    using ok by (rule encrypt_no_KeySizeError)
  show "decrypt lib ciphertext nonce key \<noteq> Return (Inl (KeySizeError k))"
    using ok by (rule decrypt_no_KeySizeError)
qed

theorem encrypt_decrypt_key_size_witness:
  "fst (encrypt (standin_lib [] []) ''plaintext'' ''too short'' ''0123456789abcdef'')
     = Inl (KeySizeError 9)
   \<and> decrypt (standin_lib [] []) ''ciphertext'' ''0123456789ab'' ''too short''
     = Return (Inl (KeySizeError 9))
   \<and> encrypt (standin_lib [] []) ''plaintext'' ''0123456789abcdefghijklmn'' ''0123456789abcdef''
     = (Inr (standin_Seal ''0123456789abcdefghijklmn'' ''0123456789ab'' ''plaintext'',
             ''0123456789ab''), ''cdef'')
   \<and> decrypt (standin_lib [] [])
        (standin_Seal ''0123456789abcdefghijklmn'' ''0123456789ab'' ''plaintext'')
        ''0123456789ab'' ''0123456789abcdefghijklmn''
     = Return (Inr ''plaintext'')
   \<and> (\<forall>k. fst (encrypt (standin_lib [] []) ''plaintext'' ''0123456789abcdefghijklmn''
                  ''0123456789abcdef'') \<noteq> Inl (KeySizeError k)
          \<and> decrypt (standin_lib [] [])
               (standin_Seal ''0123456789abcdefghijklmn'' ''0123456789ab'' ''plaintext'')
               ''0123456789ab'' ''0123456789abcdefghijklmn'' \<noteq> Return (Inl (KeySizeError k)))"
  using encrypt_decrypt_key_size [of "''too short''" "standin_lib [] []" "''plaintext''"
      "''0123456789abcdef''" "''ciphertext''" "''0123456789ab''"]
    encrypt_decrypt_key_size [of "''0123456789abcdefghijklmn''" "standin_lib [] []" "''plaintext''"
      "''0123456789abcdef''"
      "standin_Seal ''0123456789abcdefghijklmn'' ''0123456789ab'' ''plaintext''"
      "''0123456789ab''"]
  by (simp add: gcm_standin standin_Open_Seal)

text \<open>
  The claim as stated fails at a key of 16 bytes and at a key of 24 bytes: the length is
  not 32, yet \<^verbatim>\<open>encrypt\<close> returns a ciphertext and a nonce, and \<^verbatim>\<open>decrypt\<close> returns the
  plaintext.
\<close>

theorem encrypt_decrypt_16_byte_key_counterexample:
  "length ''0123456789abcdef'' \<noteq> 32
   \<and> fst (encrypt (standin_lib [] []) ''plaintext'' ''0123456789abcdef'' ''abcdefghijklmnop'')
       = Inr (standin_Seal ''0123456789abcdef'' ''abcdefghijkl'' ''plaintext'', ''abcdefghijkl'')
   \<and> decrypt (standin_lib [] [])
         (standin_Seal ''0123456789abcdef'' ''abcdefghijkl'' ''plaintext'')
         ''abcdefghijkl'' ''0123456789abcdef''
       = Return (Inr ''plaintext'')
   \<and> length ''0123456789abcdefghijklmn'' \<noteq> 32
   \<and> fst (encrypt (standin_lib [] []) ''plaintext'' ''0123456789abcdefghijklmn''
            ''abcdefghijklmnop'')
       = Inr (standin_Seal ''0123456789abcdefghijklmn'' ''abcdefghijkl'' ''plaintext'',
              ''abcdefghijkl'')
   \<and> decrypt (standin_lib [] [])
         (standin_Seal ''0123456789abcdefghijklmn'' ''abcdefghijkl'' ''plaintext'')
         ''abcdefghijkl'' ''0123456789abcdefghijklmn''
       = Return (Inr ''plaintext'')"
  by (simp add: encrypt_def decrypt_def aes_NewCipher_def io_ReadFull_def gcm_standin
      standin_Open_Seal)

subsection \<open>Theorems: stateFromRequest\<close>

lemma example_request_cookie:
  "Request_Cookie (example_request method path [(''travis.sso'', v)] form) ''travis.sso'' = Inr v"
  by (simp add: Request_Cookie_def example_request_def)

lemma b64_decode_AAAA:
  "base64_DecodeString (standin_lib users tokens) ''AAAA''
   = Inr \<lparr>elems = [CHR 0x00, CHR 0x00, CHR 0x00], slack = []\<rparr>"
  by (simp add: standin_lib_def b64_decode_def b64_index_def b64_alphabet_def byte_of_nat_def)

text \<open>
  Claim C1, at the code. A cookie value whose base64 decoding has fewer than 12 bytes is
  not rejected with an error: \<^verbatim>\<open>encryptedCookie[:12]\<close> and \<^verbatim>\<open>encryptedCookie[12:]\<close> run
  before the length tests, and one of them is out of range (the first when the capacity of
  the decoded slice is below 12, else the second), so \<^verbatim>\<open>stateFromRequest\<close> panics.
\<close>

theorem stateFromRequest_short_cookie_panics:
  assumes "Request_Cookie req ''travis.sso'' = Inr v"
    and "base64_DecodeString lib v = Inr d"
    and "len d < 12"
  shows "stateFromRequest lib sso req = Panic ''runtime error: slice bounds out of range''"
  using assms
  by (simp add: stateFromRequest_def slice_to_def slice_from_def len_def)

theorem stateFromRequest_short_cookie_panics_witness:
  "stateFromRequest (standin_lib [] []) (example_sso [])
     (example_request ''GET'' ''/'' [(''travis.sso'', ''AAAA'')] [])
   = Panic ''runtime error: slice bounds out of range''"
proof (rule stateFromRequest_short_cookie_panics)
  show "Request_Cookie (example_request ''GET'' ''/'' [(''travis.sso'', ''AAAA'')] []) ''travis.sso''
          = Inr ''AAAA''"
    by (rule example_request_cookie)
  show "base64_DecodeString (standin_lib [] []) ''AAAA''
          = Inr \<lparr>elems = [CHR 0x00, CHR 0x00, CHR 0x00], slack = []\<rparr>"
    by (rule b64_decode_AAAA)
  show "len \<lparr>elems = [CHR 0x00, CHR 0x00, CHR 0x00], slack = []\<rparr> < 12"
    by (simp add: len_def)
qed

text \<open>
  Claim C7. A cookie value whose base64 decoding has exactly 12 bytes, a nonce and no
  ciphertext, is rejected with the error \<^verbatim>\<open>encrypted cookie missing\<close>. The result is the
  same for every key, also one \<^verbatim>\<open>decrypt\<close> would refuse, and for every opening function:
  \<^verbatim>\<open>decrypt\<close> is not reached.
\<close>

theorem stateFromRequest_nonce_only:
  assumes "Request_Cookie req ''travis.sso'' = Inr v"
    and "base64_DecodeString lib v = Inr d"
    and "len d = 12"
  shows "stateFromRequest lib sso req
         = Return (None, Some (ErrorString ''encrypted cookie missing''))"
  using assms
  by (simp add: stateFromRequest_def slice_to_def slice_from_def len_def cap_def)

theorem stateFromRequest_nonce_only_witness:
  "stateFromRequest (standin_lib [] []) (example_sso [])
     (example_request ''GET'' ''/'' [(''travis.sso'', ''AAAAAAAAAAAAAAAA'')] [])
   = Return (None, Some (ErrorString ''encrypted cookie missing''))"
proof (rule stateFromRequest_nonce_only)
  show "Request_Cookie (example_request ''GET'' ''/'' [(''travis.sso'', ''AAAAAAAAAAAAAAAA'')] [])
          ''travis.sso'' = Inr ''AAAAAAAAAAAAAAAA''"
    by (rule example_request_cookie)
  show "base64_DecodeString (standin_lib [] []) ''AAAAAAAAAAAAAAAA''
          = Inr \<lparr>elems = [CHR 0x00, CHR 0x00, CHR 0x00, CHR 0x00, CHR 0x00, CHR 0x00,
                          CHR 0x00, CHR 0x00, CHR 0x00, CHR 0x00, CHR 0x00, CHR 0x00],
                 slack = []\<rparr>"
    by (simp add: standin_lib_def b64_decode_def b64_index_def b64_alphabet_def byte_of_nat_def)
  show "len \<lparr>elems = [CHR 0x00, CHR 0x00, CHR 0x00, CHR 0x00, CHR 0x00, CHR 0x00,
                     CHR 0x00, CHR 0x00, CHR 0x00, CHR 0x00, CHR 0x00, CHR 0x00],
            slack = []\<rparr> = 12"
    by (simp add: len_def)
qed

text \<open>A cookie that decodes, opens and parses gives its state.\<close>

lemma stateFromRequest_valid:
  assumes "Request_Cookie req ''travis.sso'' = Inr v"
    and "base64_DecodeString lib v = Inr d"
    and "elems d = nonce @ ciphertext"
    and "length nonce = 12"
    and "ciphertext \<noteq> []"
    and "length (EncryptionKey sso) = 32"
    and "gcm_Open lib (EncryptionKey sso) nonce ciphertext = Some b"
    and "json_DecodeState lib b = Inr st"
  shows "stateFromRequest lib sso req = Return (st, None)"
  using assms
  by (simp add: stateFromRequest_def slice_to_def slice_from_def len_def cap_def decrypt_32)

lemma example_stateFromRequest:
  "stateFromRequest (standin_lib [alice] [''T'']) (example_sso authUsers)
     (example_request method path [(''travis.sso'', example_cookie)] form)
   = Return (Some example_state, None)"
proof -
  let ?ct = "standin_Seal example_key ''0123456789ab'' (json_State example_state)"
  obtain sl where dec: "b64_decode example_cookie = Inr \<lparr>elems = ''0123456789ab'' @ ?ct, slack = sl\<rparr>"
    unfolding example_cookie_def using b64_decode_encode by blast
  show ?thesis
  proof (rule stateFromRequest_valid)
    show "Request_Cookie (example_request method path [(''travis.sso'', example_cookie)] form)
            ''travis.sso'' = Inr example_cookie"
      by (rule example_request_cookie)
    show "base64_DecodeString (standin_lib [alice] [''T'']) example_cookie
          = Inr \<lparr>elems = ''0123456789ab'' @ ?ct, slack = sl\<rparr>"
      by (simp add: standin_lib_def dec)
    show "elems \<lparr>elems = ''0123456789ab'' @ ?ct, slack = sl\<rparr> = ''0123456789ab'' @ ?ct"
      by simp
    show "length ''0123456789ab'' = 12"
      by simp
    show "?ct \<noteq> []"
      by (simp add: standin_Seal_def standin_tag_def example_key_def)
    show "length (EncryptionKey (example_sso authUsers)) = 32"
      by (simp add: example_sso_def example_key_def)
    show "gcm_Open (standin_lib [alice] [''T'']) (EncryptionKey (example_sso authUsers))
            ''0123456789ab'' ?ct = Some (json_State example_state)"
      by (simp add: gcm_standin example_sso_def standin_Open_Seal example_key_def)
    show "json_DecodeState (standin_lib [alice] [''T'']) (json_State example_state)
          = Inr (Some example_state)"
      by (rule json_DecodeState_example)
  qed
qed

subsection \<open>The Set-Cookie lines of the code's cookies\<close>

lemma Cookie_String_travis:
  "Cookie_String \<lparr>Cookie.Name = ''travis.sso'', Value = v, Cookie.Path = ''/'', Domain = d,
                  Expires = t\<rparr>
   = Some \<lparr>LName = ''travis.sso'',
           LValue = sanitizeCookieValue v,
           LPath = Some ''/'',
           LDomain = domain_attribute d,
           LExpires = (if validCookieExpires t then Some (t div 1000000000) else None)\<rparr>"
  by (simp add: Cookie_String_def isCookieNameValid_def isTokenChar_def sanitizeCookiePath_def
      validCookiePathByte_def)

lemma http_SetCookie_travis:
  "http_SetCookie w \<lparr>Cookie.Name = ''travis.sso'', Value = v, Cookie.Path = ''/'', Domain = d,
                     Expires = t\<rparr>
   = w\<lparr>SetCookies := SetCookies w @
        [\<lparr>LName = ''travis.sso'',
          LValue = sanitizeCookieValue v,
          LPath = Some ''/'',
          LDomain = domain_attribute d,
          LExpires = (if validCookieExpires t then Some (t div 1000000000) else None)\<rparr>]\<rparr>"
  by (simp add: http_SetCookie_def Cookie_String_travis)

lemma sanitizeCookieValue_empty: "sanitizeCookieValue [] = []"
  by (simp add: sanitizeCookieValue_def)







lemma SetCookies_setLogoutCookie:
  "SetCookies (setLogoutCookie sso w)
   = SetCookies w @
       [\<lparr>LName = ''travis.sso'', LValue = [], LPath = Some ''/'',
         LDomain = domain_attribute (domainFromHost (Host (AppPublicURL sso))),
         LExpires = Some 3600\<rparr>]"
  by (simp add: setLogoutCookie_def http_SetCookie_travis sanitizeCookieValue_empty
      validCookieExpires_def time_Date_1970_Jan_1_1h_def time_Hour_def)

lemma setLogoutCookie_rest:
  "Code (setLogoutCookie sso w) = Code w"
  "Body (setLogoutCookie sso w) = Body w"
  "WHeader (setLogoutCookie sso w) = WHeader w"
  by (simp_all add: setLogoutCookie_def http_SetCookie_travis)

subsection \<open>Theorems: handleRequest\<close>

lemma rendered_http_Error: "rendered (http_Error w msg code) = rendered w"
  by (simp add: rendered_def http_Error_def Write_def WriteHeader_def split: option.split)

lemma forwarded_http_Error: "forwarded (http_Error w msg code) = forwarded w"
  by (simp add: forwarded_def http_Error_def Write_def WriteHeader_def split: option.split)

lemma SetCookies_http_Error: "SetCookies (http_Error w msg code) = SetCookies w"
  by (simp add: http_Error_def Write_def WriteHeader_def split: option.split)

lemma Code_http_Error: "Code w = None \<Longrightarrow> Code (http_Error w msg code) = Some code"
  by (simp add: http_Error_def Write_def WriteHeader_def)

lemma Body_http_Error: "Body (http_Error w msg code) = Body w @ [Text (msg @ [CHR 0x0A])]"
  by (simp add: http_Error_def Write_def WriteHeader_def split: option.split)

text \<open>
  When \<^verbatim>\<open>stateFromRequest\<close> returns an error other than \<^verbatim>\<open>ErrNoCookie\<close>, the handler
  answers 500 with the error's message, adds the Set-Cookie line that clears \<^verbatim>\<open>travis.sso\<close>
  (empty value, expiry 3600 seconds after the epoch, the domain only when it is a valid
  cookie domain), forwards nothing and renders nothing.
\<close>

lemma handleRequest_error_response:
  assumes "stateFromRequest lib sso req = Return (st, Some e)"
    and "e \<noteq> ErrNoCookie"
    and "Code w = None"
  shows "\<exists>w'. handleRequest lib sso w req = Return (w', sso)
           \<and> Code w' = Some 500
           \<and> Body w' = Body w @ [Text (Error e @ [CHR 0x0A])]
           \<and> SetCookies w' = SetCookies w @
                [\<lparr>LName = ''travis.sso'', LValue = [], LPath = Some ''/'',
                  LDomain = domain_attribute (domainFromHost (Host (AppPublicURL sso))),
                  LExpires = Some 3600\<rparr>]
           \<and> forwarded w' = forwarded w
           \<and> rendered w' = rendered w"
proof -
  let ?w = "http_Error (setLogoutCookie sso w) (Error e) 500"
  have "handleRequest lib sso w req = Return (?w, sso)"
    using assms(1,2) by (simp add: handleRequest_def)
  moreover have "Code ?w = Some 500"
    using assms(3) by (simp add: Code_http_Error setLogoutCookie_rest)
  moreover have "Body ?w = Body w @ [Text (Error e @ [CHR 0x0A])]"
    by (simp add: Body_http_Error setLogoutCookie_rest)
  moreover have "SetCookies ?w = SetCookies w @
                [\<lparr>LName = ''travis.sso'', LValue = [], LPath = Some ''/'',
                  LDomain = domain_attribute (domainFromHost (Host (AppPublicURL sso))),
                  LExpires = Some 3600\<rparr>]"
    by (simp add: SetCookies_http_Error SetCookies_setLogoutCookie)
  moreover have "forwarded ?w = forwarded w"
    by (simp add: forwarded_http_Error) (simp add: forwarded_def setLogoutCookie_rest)
  moreover have "rendered ?w = rendered w"
    by (simp add: rendered_http_Error) (simp add: rendered_def setLogoutCookie_rest)
  ultimately show ?thesis
    by blast
qed

text \<open>
  Claim C3, at the code. A request whose cookie is present and decodes to fewer than 12
  bytes gets no response from \<^verbatim>\<open>handleRequest\<close>: the panic of \<^verbatim>\<open>stateFromRequest\<close>
  passes through it, so there is neither a status 500 nor a cookie that clears
  \<^verbatim>\<open>travis.sso\<close>.
\<close>

theorem handleRequest_short_cookie_panics:
  assumes "Request_Cookie req ''travis.sso'' = Inr v"
    and "base64_DecodeString lib v = Inr d"
    and "len d < 12"
  shows "handleRequest lib sso w req = Panic ''runtime error: slice bounds out of range''"
  using assms
  by (simp add: handleRequest_def stateFromRequest_def slice_to_def slice_from_def len_def)

theorem handleRequest_short_cookie_panics_witness:
  "handleRequest (standin_lib [] []) (example_sso []) NewResponseWriter
     (example_request ''GET'' ''/'' [(''travis.sso'', ''AAAA'')] [])
   = Panic ''runtime error: slice bounds out of range''"
proof (rule handleRequest_short_cookie_panics)
  show "Request_Cookie (example_request ''GET'' ''/'' [(''travis.sso'', ''AAAA'')] []) ''travis.sso''
          = Inr ''AAAA''"
    by (rule example_request_cookie)
  show "base64_DecodeString (standin_lib [] []) ''AAAA''
          = Inr \<lparr>elems = [CHR 0x00, CHR 0x00, CHR 0x00], slack = []\<rparr>"
    by (rule b64_decode_AAAA)
  show "len \<lparr>elems = [CHR 0x00, CHR 0x00, CHR 0x00], slack = []\<rparr> < 12"
    by (simp add: len_def)
qed






subsection \<open>Theorems: handleLogin\<close>






text \<open>
  A login whose token the identity provider answers with status 200 and a decodable user
  comes down to the policy's decision on that user.
\<close>

lemma handleLogin_user:
  assumes "Method req = ''POST''"
    and "FormValue req ''sso_token'' = token"
    and "token \<noteq> []"
    and "identity_provider_answer lib sso token = Inr resp"
    and "StatusCode resp = 200"
    and "json_DecodeAPIMessage lib (RespBody resp) = Inr m"
  shows "handleLogin lib sso now rnd w req =
     (case Authorized sso (MUser m) of
        (ok, Some err) \<Rightarrow> (http_Error w (Error err) 500, rnd)
      | (ok, None) \<Rightarrow>
          if \<not> ok
          then (http_Error w (''access denied for user '' @ Login (MUser m)) 403, rnd)
          else
            (case json_Marshal lib \<lparr>User = MUser m, Token = token\<rparr> of
               Inl err \<Rightarrow> (http_Error w (Error err) 500, rnd)
             | Inr b \<Rightarrow>
                 (case encrypt lib b (EncryptionKey sso) rnd of
                    (Inl err, rnd') \<Rightarrow> (http_Error w (Error err) 500, rnd')
                  | (Inr (encryptedCookie, nonce), rnd') \<Rightarrow>
                      (http_Redirect
                         (http_SetCookie w
                            \<lparr>Cookie.Name = ''travis.sso'',
                             Value = base64_EncodeToString lib (nonce @ encryptedCookie),
                             Cookie.Path = ''/'',
                             Domain = domainFromHost (Host (AppPublicURL sso)),
                             Expires = now + 365 * 24 * time_Hour\<rparr>)
                         req ''/'' 302, rnd'))))"
proof -
  from assms(4) obtain apiReq where
    new: "http_NewRequest lib ''GET'' (login_api_url lib sso token) = Inr apiReq"
    and do: "client_Do lib (apiReq\<lparr>CHeader := Header_Add (CHeader apiReq) ''Accept''
                                      ''application/vnd.travis-ci.2+json''\<rparr>) = Inr resp"
    by (auto simp add: identity_provider_answer_def split: sum.splits)
  from new have new': "http_NewRequest lib ''GET''
      (URL_String lib ((APIURL sso)\<lparr>URL.Path := ''/users'',
          RawQuery := Values_Encode lib (Header_Add (url_Query lib (APIURL sso))
             ''access_token'' token)\<rparr>)) = Inr apiReq"
    by (simp add: login_api_url_def)
  show ?thesis
    unfolding handleLogin_def
    by (simp add: assms(1,2,3,5,6) new' do Let_def split: prod.splits sum.splits option.splits)
qed


lemma example_login_request:
  "Method (example_request ''POST'' path cookies [(''sso_token'', ''T'')]) = ''POST''"
  "FormValue (example_request ''POST'' path cookies [(''sso_token'', ''T'')]) ''sso_token'' = ''T''"
  by (simp_all add: example_request_def FormValue_def)

lemma example_identity_provider:
  assumes "APIURL sso = \<lparr>Scheme = ''https'', Host = ''api.github.com'', URL.Path = [], RawQuery = []\<rparr>"
  shows "identity_provider_answer (standin_lib [alice] [''T'']) sso ''T''
         = Inr \<lparr>StatusCode = 200, RespBody = json_APIMessage \<lparr>MUser = alice\<rparr>\<rparr>"
  by (simp add: identity_provider_answer_def login_api_url_def standin_lib_def assms Header_Add_def)

lemma example_decode_user:
  "json_DecodeAPIMessage (standin_lib [alice] [''T''])
     (RespBody \<lparr>StatusCode = 200, RespBody = json_APIMessage \<lparr>MUser = alice\<rparr>\<rparr>)
   = Inr \<lparr>MUser = alice\<rparr>"
  by (simp add: standin_lib_def)

lemma example_sso_fields:
  "APIURL (example_sso authUsers)
   = \<lparr>Scheme = ''https'', Host = ''api.github.com'', URL.Path = [], RawQuery = []\<rparr>"
  "APIURL (example_sso_ipv6 authUsers)
   = \<lparr>Scheme = ''https'', Host = ''api.github.com'', URL.Path = [], RawQuery = []\<rparr>"
  "EncryptionKey (example_sso authUsers) = example_key"
  "EncryptionKey (example_sso_ipv6 authUsers) = example_key"
  "Authorized (example_sso authUsers) = main_Authorized authUsers"
  "Authorized (example_sso_ipv6 authUsers) = main_Authorized authUsers"
  "Host (AppPublicURL (example_sso authUsers)) = ''localhost:8080''"
  "Host (AppPublicURL (example_sso_ipv6 authUsers)) = ''[::1]:8080''"
  by (simp_all add: example_sso_def example_sso_ipv6_def)





text \<open>
  Claim C5. For every POST with a non-empty \<^verbatim>\<open>sso_token\<close> that the identity provider
  answers with status 200 and a decodable user whom the policy does not accept,
  \<^verbatim>\<open>handleLogin\<close> answers 403 with the body \<^verbatim>\<open>access denied for user <login>\<close> and a
  newline, and sets no cookie.
\<close>

theorem handleLogin_access_denied:
  assumes "Method req = ''POST''"
    and "FormValue req ''sso_token'' = token"
    and "token \<noteq> []"
    and "identity_provider_answer lib sso token = Inr resp"
    and "StatusCode resp = 200"
    and "json_DecodeAPIMessage lib (RespBody resp) = Inr m"
    and "Authorized sso (MUser m) = (False, None)"
    and "Code w = None"
  shows "\<exists>w'. handleLogin lib sso now rnd w req = (w', rnd)
           \<and> Code w' = Some 403
           \<and> Body w' = Body w @ [Text (''access denied for user '' @ Login (MUser m) @ [CHR 0x0A])]
           \<and> SetCookies w' = SetCookies w"
proof -
  let ?w = "http_Error w (''access denied for user '' @ Login (MUser m)) 403"
  have "handleLogin lib sso now rnd w req = (?w, rnd)"
    by (simp add: handleLogin_user [OF assms(1-6)] assms(7))
  moreover have "Code ?w = Some 403"
    using assms(8) by (rule Code_http_Error)
  moreover have "Body ?w = Body w @ [Text (''access denied for user '' @ Login (MUser m) @ [CHR 0x0A])]"
    by (simp add: Body_http_Error)
  moreover have "SetCookies ?w = SetCookies w"
    by (rule SetCookies_http_Error)
  ultimately show ?thesis
    by blast
qed

theorem handleLogin_access_denied_witness:
  "\<exists>w'. handleLogin (standin_lib [alice] [''T'']) (example_sso [''bob'']) 1000
            ''0123456789abcdef'' NewResponseWriter
            (example_request ''POST'' ''/sso/login'' [] [(''sso_token'', ''T'')])
          = (w', ''0123456789abcdef'')
     \<and> Code w' = Some 403
     \<and> Body w' = Body NewResponseWriter
          @ [Text (''access denied for user '' @ Login (MUser \<lparr>MUser = alice\<rparr>) @ [CHR 0x0A])]
     \<and> SetCookies w' = SetCookies NewResponseWriter"
proof (rule handleLogin_access_denied)
  show "Method (example_request ''POST'' ''/sso/login'' [] [(''sso_token'', ''T'')]) = ''POST''"
    by (rule example_login_request)
  show "FormValue (example_request ''POST'' ''/sso/login'' [] [(''sso_token'', ''T'')]) ''sso_token''
        = ''T''"
    by (rule example_login_request)
  show "''T'' \<noteq> []"
    by simp
  show "identity_provider_answer (standin_lib [alice] [''T'']) (example_sso [''bob'']) ''T''
        = Inr \<lparr>StatusCode = 200, RespBody = json_APIMessage \<lparr>MUser = alice\<rparr>\<rparr>"
    by (rule example_identity_provider) (rule example_sso_fields)
  show "StatusCode \<lparr>StatusCode = 200, RespBody = json_APIMessage \<lparr>MUser = alice\<rparr>\<rparr> = 200"
    by simp
  show "json_DecodeAPIMessage (standin_lib [alice] [''T''])
          (RespBody \<lparr>StatusCode = 200, RespBody = json_APIMessage \<lparr>MUser = alice\<rparr>\<rparr>)
        = Inr \<lparr>MUser = alice\<rparr>"
    by (rule example_decode_user)
  show "Authorized (example_sso [''bob'']) (MUser \<lparr>MUser = alice\<rparr>) = (False, None)"
    by (simp add: example_sso_fields main_Authorized_def alice_def)
  show "Code NewResponseWriter = None"
    by (simp add: NewResponseWriter_def)
qed




text \<open>
  Where the login page comes from: \<^verbatim>\<open>handleRequest\<close> on a GET or HEAD request with no
  \<^verbatim>\<open>travis.sso\<close> cookie executes the template, loaded before or parsed now; when the
  template cannot be parsed the process exits.
\<close>

lemma handleRequest_no_cookie_renders:
  assumes "Request_Cookie req ''travis.sso'' = Inl ErrNoCookie"
    and "Method req = ''GET'' \<or> Method req = ''HEAD''"
    and "template sso = Some t
         \<or> (template sso = None
            \<and> template_ParseFiles lib (TemplatePath sso @ ''/login.html'') = Inr t)"
  shows "handleRequest lib sso w req
         = Return (Write w (LoginPage t
                     \<lparr>Public = ''/sso/static'',
                      Endpoint = URL_String lib (APIURL sso),
                      Origin = URL_String lib (AppPublicURL sso),
                      CSRF = csrf_Token lib req\<rparr>),
                   sso\<lparr>template := Some t\<rparr>)"
  using assms
  by (auto simp add: handleRequest_def stateFromRequest_def handleHandshake_def)

lemma handleRequest_no_cookie_exits:
  assumes "Request_Cookie req ''travis.sso'' = Inl ErrNoCookie"
    and "Method req = ''GET'' \<or> Method req = ''HEAD''"
    and "template sso = None"
    and "template_ParseFiles lib (TemplatePath sso @ ''/login.html'') = Inl err"
  shows "handleRequest lib sso w req = Exit (''error compiling template: '' @ Error err)"
  using assms
  by (auto simp add: handleRequest_def stateFromRequest_def handleHandshake_def)

end
